theory Spec2Isabelle
  imports Complex_Main "HOL-Library.Sublist"
begin

section \<open>Text\<close>

text \<open>
  Python strings are modelled by their UTF-8 bytes (\<^typ>\<open>string\<close> is a list of 8-bit
  characters). The literals of the source are Chinese; each is a named constant holding
  its UTF-8 encoding, glossed in English where it is introduced. UTF-8 is
  self-synchronising, so the Python test \<^verbatim>\<open>a in b\<close> on two strings holds exactly when
  the bytes of \<open>a\<close> occur contiguously in the bytes of \<open>b\<close>.
\<close>

definition str_contains :: "string \<Rightarrow> string \<Rightarrow> bool" where
  \<comment> \<open>\<^verbatim>\<open>needle in haystack\<close>\<close>
  "str_contains needle haystack = sublist needle haystack"

text \<open>
  \<^verbatim>\<open>str.lower()\<close>: the letters A to Z move to a to z. Bytes from 0x80 up (the
  encodings of non-ASCII characters, among them the uncased CJK ideographs of the
  source's literals) stay as they are.
\<close>

definition lower_char :: "char \<Rightarrow> char" where
  "lower_char c =
     (let n = (of_char c :: nat) in if 65 \<le> n \<and> n \<le> 90 then char_of (n + 32) else c)"

definition lower :: "string \<Rightarrow> string" where
  "lower s = map lower_char s"

text \<open>\<^verbatim>\<open>str(n)\<close> for a non-negative integer: its decimal digits.\<close>

fun str_nat :: "nat \<Rightarrow> string" where
  "str_nat n =
     (if n < 10 then [char_of (48 + n)] else str_nat (n div 10) @ [char_of (48 + n mod 10)])"

text \<open>
  An exception value: the name of its class (\<^verbatim>\<open>type(e).__name__\<close>) and its message
  (\<^verbatim>\<open>str(e)\<close>).
\<close>

datatype py_exception = PyException (exc_type: string) (exc_str: string)

abbreviation Exception :: "string \<Rightarrow> py_exception" where
  "Exception msg \<equiv> PyException ''Exception'' msg"

abbreviation RuntimeError :: "string \<Rightarrow> py_exception" where
  "RuntimeError msg \<equiv> PyException ''RuntimeError'' msg"

section \<open>Retry classification (app/tasks/processing.py)\<close>

text \<open>
  The keywords of \<^verbatim>\<open>should_retry_error\<close>. Glosses: \<open>kw_invalid_image\<close> "invalid image
  file", \<open>kw_format_unsupported\<close> "file format not supported", \<open>kw_file_corrupt\<close> "file
  corrupt", \<open>kw_resources_insufficient\<close> "insufficient resources", \<open>kw_server_busy\<close>
  "server busy".
\<close>

definition kw_invalid_image :: string where
  "kw_invalid_image = [CHR 0xE7, CHR 0x84, CHR 0xA1, CHR 0xE6, CHR 0x95, CHR 0x88,
      CHR 0xE7, CHR 0x9A, CHR 0x84, CHR 0xE5, CHR 0x9C, CHR 0x96, CHR 0xE7, CHR 0x89,
      CHR 0x87, CHR 0xE6, CHR 0xAA, CHR 0x94, CHR 0xE6, CHR 0xA1, CHR 0x88]"

definition kw_format_unsupported :: string where
  "kw_format_unsupported = [CHR 0xE6, CHR 0xAA, CHR 0x94, CHR 0xE6, CHR 0xA1, CHR 0x88,
      CHR 0xE6, CHR 0xA0, CHR 0xBC, CHR 0xE5, CHR 0xBC, CHR 0x8F, CHR 0xE4, CHR 0xB8,
      CHR 0x8D, CHR 0xE6, CHR 0x94, CHR 0xAF, CHR 0xE6, CHR 0x8F, CHR 0xB4]"

definition kw_file_corrupt :: string where
  "kw_file_corrupt = [CHR 0xE6, CHR 0xAA, CHR 0x94, CHR 0xE6, CHR 0xA1, CHR 0x88,
      CHR 0xE6, CHR 0x90, CHR 0x8D, CHR 0xE5, CHR 0xA3, CHR 0x9E]"

definition kw_resources_insufficient :: string where
  "kw_resources_insufficient = [CHR 0xE8, CHR 0xB3, CHR 0x87, CHR 0xE6, CHR 0xBA,
      CHR 0x90, CHR 0xE4, CHR 0xB8, CHR 0x8D, CHR 0xE8, CHR 0xB6, CHR 0xB3]"

definition kw_server_busy :: string where
  "kw_server_busy = [CHR 0xE6, CHR 0x9C, CHR 0x8D, CHR 0xE5, CHR 0x8B, CHR 0x99,
      CHR 0xE5, CHR 0x99, CHR 0xA8, CHR 0xE5, CHR 0xBF, CHR 0x99, CHR 0xE7, CHR 0xA2,
      CHR 0x8C]"

definition non_retryable_errors :: "string list" where
  "non_retryable_errors =
     [kw_invalid_image, kw_format_unsupported, kw_file_corrupt,
      ''parameter_validation_error'', ''invalid_file_format'', ''file_too_large'']"

definition retryable_errors :: "string list" where
  "retryable_errors =
     [''gpu'', ''memory'', ''timeout'', ''connection'', ''temporary'',
      kw_resources_insufficient, kw_server_busy, ''processing failed'']"

text \<open>
  The function takes the exception and reads only \<^verbatim>\<open>str(error)\<close>; the model takes that
  string. Each \<^verbatim>\<open>for\<close> loop returns at the first keyword found, which is
  \<^const>\<open>list_ex\<close>. The result \<open>True\<close> is the verdict "retryable", \<open>False\<close> is "fatal".
\<close>

definition should_retry_error :: "string \<Rightarrow> bool" where
  "should_retry_error error =
     (let error_str = lower error in
      if list_ex (\<lambda>non_retryable. str_contains non_retryable error_str) non_retryable_errors
      then False
      else if list_ex (\<lambda>retryable. str_contains retryable error_str) retryable_errors
      then True
      else True)"

text \<open>
  The fatal keywords as the specification words them (English phrases separated by
  blanks), to be compared with the list of the source.
\<close>

definition spec_fatal_phrases :: "string list" where
  "spec_fatal_phrases =
     [''invalid image file'', ''unsupported file format'', ''corrupt file'',
      ''parameter validation error'', ''invalid file format'', ''file too large'']"

definition spec_is_fatal :: "string \<Rightarrow> bool" where
  "spec_is_fatal m = list_ex (\<lambda>phrase. str_contains phrase m) spec_fatal_phrases"

section \<open>The GPU resource manager (app/services/gpu_resource_manager.py)\<close>

record GPUStatus =
  available :: bool
  memory_total :: int
  memory_used :: int
  memory_free :: int
  memory_percent :: real
  temperature :: "real option"
  utilization :: "real option"

text \<open>
  The fields of \<^verbatim>\<open>GPUResourceManager\<close> that the admission logic reads and writes. The
  lock is not a field of the model: each function below that the source runs inside
  \<^verbatim>\<open>async with self._lock\<close> is one atomic step.
\<close>

record GPUResourceManager =
  max_concurrent_tasks :: int
  memory_threshold :: real
  active_tasks :: int

definition GPUResourceManager_init :: "int \<Rightarrow> real \<Rightarrow> GPUResourceManager" where
  "GPUResourceManager_init max_tasks threshold =
     \<lparr>max_concurrent_tasks = max_tasks, memory_threshold = threshold, active_tasks = 0\<rparr>"

text \<open>
  \<^verbatim>\<open>get_gpu_status\<close> probes the device through the torch and pynvml libraries; its
  result is an input of the model. \<^verbatim>\<open>check_gpu_memory\<close> returns one of two dictionaries.
\<close>

datatype gpu_memory_report =
  GpuUnavailable
| GpuAvailable (report_status: GPUStatus) (memory_available: bool)

definition check_gpu_memory :: "GPUResourceManager \<Rightarrow> GPUStatus \<Rightarrow> gpu_memory_report" where
  "check_gpu_memory self status =
     (if \<not> available status then GpuUnavailable
      else let memory_usage_percent = memory_percent status / 100
           in GpuAvailable status (memory_usage_percent < memory_threshold self))"

text \<open>
  Reasons of a refusal: \<open>reason_task_limit\<close> "maximum number of concurrent tasks
  reached", \<open>reason_gpu_unavailable\<close> "GPU not available", \<open>reason_gpu_memory\<close> "GPU
  memory insufficient"; \<open>slot_error_prefix\<close> "cannot get a GPU slot: ".
\<close>

definition reason_task_limit :: string where
  "reason_task_limit = [CHR 0xE9, CHR 0x81, CHR 0x94, CHR 0xE5, CHR 0x88, CHR 0xB0,
      CHR 0xE6, CHR 0x9C, CHR 0x80, CHR 0xE5, CHR 0xA4, CHR 0xA7, CHR 0xE4, CHR 0xBD,
      CHR 0xB5, CHR 0xE7, CHR 0x99, CHR 0xBC, CHR 0xE4, CHR 0xBB, CHR 0xBB, CHR 0xE5,
      CHR 0x8B, CHR 0x99, CHR 0xE9, CHR 0x99, CHR 0x90, CHR 0xE5, CHR 0x88, CHR 0xB6]"

definition reason_gpu_unavailable :: string where
  "reason_gpu_unavailable = ''GPU '' @ [CHR 0xE4, CHR 0xB8, CHR 0x8D, CHR 0xE5,
      CHR 0x8F, CHR 0xAF, CHR 0xE7, CHR 0x94, CHR 0xA8]"

definition reason_gpu_memory :: string where
  "reason_gpu_memory = ''GPU '' @ [CHR 0xE8, CHR 0xA8, CHR 0x98, CHR 0xE6, CHR 0x86,
      CHR 0xB6, CHR 0xE9, CHR 0xAB, CHR 0x94, CHR 0xE4, CHR 0xB8, CHR 0x8D, CHR 0xE8,
      CHR 0xB6, CHR 0xB3]"

definition slot_error_prefix :: string where
  "slot_error_prefix = [CHR 0xE7, CHR 0x84, CHR 0xA1, CHR 0xE6, CHR 0xB3, CHR 0x95,
      CHR 0xE5, CHR 0x8F, CHR 0x96, CHR 0xE5, CHR 0xBE, CHR 0x97] @ '' GPU '' @
      [CHR 0xE6, CHR 0xA7, CHR 0xBD, CHR 0xE4, CHR 0xBD, CHR 0x8D] @ '': ''"

datatype admission = CanProcess | CannotProcess (reason: string)

definition can_process_task :: "GPUResourceManager \<Rightarrow> GPUStatus \<Rightarrow> admission" where
  "can_process_task self status =
     (if active_tasks self \<ge> max_concurrent_tasks self then CannotProcess reason_task_limit
      else case check_gpu_memory self status of
             GpuUnavailable \<Rightarrow> CannotProcess reason_gpu_unavailable
           | GpuAvailable _ mem_ok \<Rightarrow>
               if \<not> mem_ok then CannotProcess reason_gpu_memory else CanProcess)"

text \<open>The two locked sections of \<^verbatim>\<open>acquire_gpu_slot\<close> that write the counter.\<close>

definition slot_increment :: "GPUResourceManager \<Rightarrow> GPUResourceManager" where
  "slot_increment self = self\<lparr>active_tasks := active_tasks self + 1\<rparr>"

definition slot_decrement :: "GPUResourceManager \<Rightarrow> GPUResourceManager" where
  "slot_decrement self = self\<lparr>active_tasks := active_tasks self - 1\<rparr>"

text \<open>
  What \<^verbatim>\<open>acquire_gpu_slot\<close> writes to the logger, with the two numbers of the message
  (\<^verbatim>\<open>active_tasks/max_concurrent_tasks\<close>), and the call of \<^verbatim>\<open>cleanup_gpu_memory\<close>, whose
  effect is on the device only and which catches every exception of its body.
\<close>

datatype slot_event =
  SlotRefused string string
| SlotAcquired string int int
| GpuCacheCleaned
| SlotReleased string int int

text \<open>
  The context manager, on any state \<open>'s\<close> that holds the manager (\<open>get\<close>, \<open>put\<close>) and a
  logger (\<open>emit\<close>). The guarded block is \<open>body\<close>: it returns normally (\<open>Inr\<close>) or raises
  (\<open>Inl\<close>), and in both cases the \<^verbatim>\<open>finally\<close> clause runs on the state the block left.
  A refusal raises before the block is entered.
\<close>

definition acquire_gpu_slot ::
  "('s \<Rightarrow> GPUResourceManager) \<Rightarrow> (GPUResourceManager \<Rightarrow> 's \<Rightarrow> 's) \<Rightarrow>
   (slot_event \<Rightarrow> 's \<Rightarrow> 's) \<Rightarrow> string \<Rightarrow> GPUStatus \<Rightarrow>
   ('s \<Rightarrow> (py_exception + 'a) \<times> 's) \<Rightarrow> 's \<Rightarrow> (py_exception + 'a) \<times> 's" where
  "acquire_gpu_slot get put emit task_id status body s =
     (case can_process_task (get s) status of
        CannotProcess why \<Rightarrow>
          (let error_msg = slot_error_prefix @ why
           in (Inl (RuntimeError error_msg), emit (SlotRefused task_id error_msg) s))
      | CanProcess \<Rightarrow>
          (let s1 = put (slot_increment (get s)) s;
               s2 = emit (SlotAcquired task_id (active_tasks (get s1))
                            (max_concurrent_tasks (get s1))) s1;
               s3 = emit GpuCacheCleaned s2;
               (outcome, s4) = body s3;
               s5 = put (slot_decrement (get s4)) s4;
               s6 = emit (SlotReleased task_id (active_tasks (get s5))
                            (max_concurrent_tasks (get s5))) s5
           in (outcome, s6)))"

text \<open>The smallest state: the manager and the logger's output.\<close>

record arbiter =
  manager :: GPUResourceManager
  slot_log :: "slot_event list"

definition arbiter_emit :: "slot_event \<Rightarrow> arbiter \<Rightarrow> arbiter" where
  "arbiter_emit e s = s\<lparr>slot_log := slot_log s @ [e]\<rparr>"

definition arbiter_put :: "GPUResourceManager \<Rightarrow> arbiter \<Rightarrow> arbiter" where
  "arbiter_put m s = s\<lparr>manager := m\<rparr>"

definition with_gpu_slot ::
  "string \<Rightarrow> GPUStatus \<Rightarrow> (arbiter \<Rightarrow> (py_exception + 'a) \<times> arbiter) \<Rightarrow> arbiter \<Rightarrow>
   (py_exception + 'a) \<times> arbiter" where
  "with_gpu_slot = acquire_gpu_slot manager arbiter_put arbiter_emit"

subsection \<open>Concurrent tasks\<close>

text \<open>
  Several tasks use one manager. A task that calls \<^verbatim>\<open>acquire_gpu_slot\<close> takes two
  steps: the acquisition, which is the admission check (\<^verbatim>\<open>can_process_task\<close>) followed,
  when the task is admitted, by the increment; and, when its guarded block is left, the
  release, which is the decrement.

  The acquisition is one step because the coroutine is not suspended inside it.
  \<^verbatim>\<open>get_gpu_status\<close> contains no \<^verbatim>\<open>await\<close> that suspends, so the lock is never held
  across a suspension and is free whenever a task asks for it; entering
  \<^verbatim>\<open>async with self._lock\<close> on a free lock returns at once, and nothing else stands
  between the check and the increment. The guarded block does suspend (the render is
  awaited), so the acquisitions and releases of different tasks interleave in any
  order: a schedule names, step by step, the task that takes its next step, with the
  reading of the device when that step is an acquisition.
\<close>

datatype slot_pc = Idle | Holding | Released | Refused

record arbitration =
  shared :: GPUResourceManager
  pc :: "nat \<Rightarrow> slot_pc"

definition arbitration_init :: "int \<Rightarrow> real \<Rightarrow> arbitration" where
  "arbitration_init max_tasks threshold =
     \<lparr>shared = GPUResourceManager_init max_tasks threshold, pc = (\<lambda>_. Idle)\<rparr>"

definition slot_step :: "nat \<times> GPUStatus \<Rightarrow> arbitration \<Rightarrow> arbitration" where
  "slot_step step s =
     (let (t, status) = step in
      case pc s t of
        Idle \<Rightarrow>
          (case can_process_task (shared s) status of
             CanProcess \<Rightarrow> s\<lparr>shared := slot_increment (shared s), pc := (pc s)(t := Holding)\<rparr>
           | CannotProcess _ \<Rightarrow> s\<lparr>pc := (pc s)(t := Refused)\<rparr>)
      | Holding \<Rightarrow> s\<lparr>shared := slot_decrement (shared s), pc := (pc s)(t := Released)\<rparr>
      | Released \<Rightarrow> s
      | Refused \<Rightarrow> s)"

definition run_schedule :: "(nat \<times> GPUStatus) list \<Rightarrow> arbitration \<Rightarrow> arbitration" where
  "run_schedule schedule s = foldl (\<lambda>s step. slot_step step s) s schedule"

text \<open>A device with free memory, as a reading of the probe.\<close>

definition gpu_idle :: GPUStatus where
  "gpu_idle =
     \<lparr>available = True, memory_total = 1000, memory_used = 100, memory_free = 900,
      memory_percent = 10, temperature = None, utilization = None\<rparr>"

text \<open>The tasks that hold a slot, and the counter agreeing with their number.\<close>

definition holders :: "arbitration \<Rightarrow> nat set" where
  "holders s = {t. pc s t = Holding}"

definition counter_counts_holders :: "arbitration \<Rightarrow> bool" where
  "counter_counts_holders s \<longleftrightarrow>
     finite (holders s) \<and> active_tasks (shared s) = int (card (holders s))"

definition within_capacity :: "arbitration \<Rightarrow> bool" where
  "within_capacity s \<longleftrightarrow>
     counter_counts_holders s \<and> active_tasks (shared s) \<le> max_concurrent_tasks (shared s)"

text \<open>An arbiter with the given capacity and number of leases, and nothing logged.\<close>

definition arbiter_with :: "int \<Rightarrow> int \<Rightarrow> arbiter" where
  "arbiter_with capacity leases =
     \<lparr>manager = (GPUResourceManager_init capacity 0.8)\<lparr>active_tasks := leases\<rparr>,
      slot_log = []\<rparr>"

section \<open>The monitoring service (app/services/monitoring.py)\<close>

text \<open>
  Clock readings (\<^verbatim>\<open>datetime.now()\<close>, \<^verbatim>\<open>time.time()\<close>) are inputs of the operations, in
  seconds. Of an \<^verbatim>\<open>ErrorEvent\<close> the model keeps the fields that the service reads back;
  the stack trace and the context dictionary are stored by the source and never inspected.
\<close>

record MetricsData =
  metric_timestamp :: real
  metric_name :: string
  metric_value :: real
  tags :: "(string \<times> string) list"

record ErrorEvent =
  event_timestamp :: real
  error_type :: string
  event_message :: string
  event_task_id :: "string option"

record TaskStats =
  total_tasks :: int
  completed_tasks :: int
  failed_tasks :: int
  retried_tasks :: int
  average_processing_time :: real

record MonitoringService =
  max_metrics_history :: nat
  max_error_history :: nat
  metrics_history :: "MetricsData list"
  error_history :: "ErrorEvent list"
  counters :: "string \<rightharpoonup> real"
  gauges :: "string \<rightharpoonup> real"
  performance_timers :: "string \<rightharpoonup> real"
  error_counts :: "string \<rightharpoonup> int"
  error_rates :: "string \<rightharpoonup> real list"
  task_stats :: TaskStats
  processing_times :: "real list"

text \<open>
  \<^verbatim>\<open>collections.deque(maxlen=n)\<close>: appending to a full deque drops the oldest entry, and a
  deque built from a longer list keeps its last \<open>n\<close> entries.
\<close>

definition deque_of :: "nat \<Rightarrow> 'a list \<Rightarrow> 'a list" where
  "deque_of maxlen xs = drop (length xs - maxlen) xs"

definition deque_append :: "nat \<Rightarrow> 'a list \<Rightarrow> 'a \<Rightarrow> 'a list" where
  "deque_append maxlen d x = deque_of maxlen (d @ [x])"

text \<open>\<^verbatim>\<open>d[k] += v\<close> on a \<^verbatim>\<open>defaultdict\<close> whose missing entries read as zero.\<close>

definition defaultdict_add :: "('k \<rightharpoonup> 'v::zero) \<Rightarrow> 'k \<Rightarrow> ('v \<Rightarrow> 'v) \<Rightarrow> ('k \<rightharpoonup> 'v)" where
  "defaultdict_add d k f = d(k \<mapsto> f (case d k of None \<Rightarrow> 0 | Some v \<Rightarrow> v))"

definition MonitoringService_init :: "nat \<Rightarrow> nat \<Rightarrow> MonitoringService" where
  "MonitoringService_init max_metrics max_errors =
     \<lparr>max_metrics_history = max_metrics, max_error_history = max_errors,
      metrics_history = [], error_history = [],
      counters = Map.empty, gauges = Map.empty, performance_timers = Map.empty,
      error_counts = Map.empty, error_rates = Map.empty,
      task_stats = \<lparr>total_tasks = 0, completed_tasks = 0, failed_tasks = 0,
                     retried_tasks = 0, average_processing_time = 0\<rparr>,
      processing_times = []\<rparr>"

definition record_metric ::
  "real \<Rightarrow> string \<Rightarrow> real \<Rightarrow> (string \<times> string) list \<Rightarrow> MonitoringService \<Rightarrow> MonitoringService"
  where
  "record_metric now name v tgs self =
     (let metric = \<lparr>metric_timestamp = now, metric_name = name, metric_value = v, tags = tgs\<rparr>;
          self1 = self\<lparr>metrics_history :=
                    deque_append (max_metrics_history self) (metrics_history self) metric\<rparr>
      in if suffix ''_count'' name
         then self1\<lparr>counters := defaultdict_add (counters self1) name (\<lambda>c. c + v)\<rparr>
         else self1\<lparr>gauges := (gauges self1)(name \<mapsto> v)\<rparr>)"

text \<open>
  \<^verbatim>\<open>if task_id:\<close> tests the truth value of an optional string: \<^verbatim>\<open>None\<close> and the empty
  string are both false.
\<close>

definition truthy :: "string option \<Rightarrow> bool" where
  "truthy x = (case x of None \<Rightarrow> False | Some s \<Rightarrow> s \<noteq> [])"

definition record_error ::
  "real \<Rightarrow> py_exception \<Rightarrow> string option \<Rightarrow> MonitoringService \<Rightarrow> MonitoringService" where
  "record_error now error task_id self =
     (let error_event = \<lparr>event_timestamp = now, error_type = exc_type error,
                          event_message = exc_str error, event_task_id = task_id\<rparr>;
          self1 = self\<lparr>error_history :=
                    deque_append (max_error_history self) (error_history self) error_event\<rparr>;
          self2 = self1\<lparr>error_counts :=
                    defaultdict_add (error_counts self1) (error_type error_event) (\<lambda>c. c + 1)\<rparr>;
          self3 = self2\<lparr>error_rates :=
                    (error_rates self2)(error_type error_event \<mapsto>
                       deque_append 100
                         (case error_rates self2 (error_type error_event) of
                            None \<Rightarrow> [] | Some d \<Rightarrow> d) now)\<rparr>
      in if truthy task_id
         then self3\<lparr>task_stats :=
                (task_stats self3)\<lparr>failed_tasks := failed_tasks (task_stats self3) + 1\<rparr>\<rparr>
         else self3)"

definition start_timer :: "real \<Rightarrow> string \<Rightarrow> MonitoringService \<Rightarrow> MonitoringService" where
  "start_timer now timer_name self =
     self\<lparr>performance_timers := (performance_timers self)(timer_name \<mapsto> now)\<rparr>"

definition stop_timer :: "real \<Rightarrow> string \<Rightarrow> MonitoringService \<Rightarrow> real \<times> MonitoringService" where
  "stop_timer now timer_name self =
     (case performance_timers self timer_name of
        None \<Rightarrow> (0, self)
      | Some started \<Rightarrow>
          (let elapsed = now - started;
               self1 = self\<lparr>performance_timers := (performance_timers self)(timer_name := None)\<rparr>
           in (elapsed, record_metric now (timer_name @ ''_duration'') elapsed [] self1)))"

definition record_task_completed ::
  "real \<Rightarrow> string \<Rightarrow> real \<Rightarrow> MonitoringService \<Rightarrow> MonitoringService" where
  "record_task_completed now task_id processing_time self =
     (let self1 = self\<lparr>task_stats :=
                    (task_stats self)\<lparr>completed_tasks := completed_tasks (task_stats self) + 1\<rparr>\<rparr>;
          self2 = self1\<lparr>processing_times :=
                    deque_append 100 (processing_times self1) processing_time\<rparr>;
          self3 = (if processing_times self2 \<noteq> []
                   then self2\<lparr>task_stats := (task_stats self2)
                          \<lparr>average_processing_time :=
                             sum_list (processing_times self2)
                               / real (length (processing_times self2))\<rparr>\<rparr>
                   else self2);
          self4 = record_metric now ''task_processing_time'' processing_time
                    [(''task_id'', task_id)] self3
      in record_metric now ''task_completed_count'' 1 [] self4)"

definition record_task_retry ::
  "real \<Rightarrow> string \<Rightarrow> nat \<Rightarrow> MonitoringService \<Rightarrow> MonitoringService" where
  "record_task_retry now task_id retry_count self =
     (let self1 = self\<lparr>task_stats :=
                    (task_stats self)\<lparr>retried_tasks := retried_tasks (task_stats self) + 1\<rparr>\<rparr>
      in record_metric now ''task_retry_count'' 1
           [(''task_id'', task_id), (''retry_count'', str_nat retry_count)] self1)"

definition clear_old_data :: "real \<Rightarrow> int \<Rightarrow> MonitoringService \<Rightarrow> MonitoringService" where
  "clear_old_data now days self =
     (let cutoff_time = now - real_of_int days * 86400
      in self\<lparr>metrics_history :=
                deque_of (max_metrics_history self)
                  (filter (\<lambda>m. metric_timestamp m \<ge> cutoff_time) (metrics_history self)),
              error_history :=
                deque_of (max_error_history self)
                  (filter (\<lambda>e. event_timestamp e \<ge> cutoff_time) (error_history self)),
              error_rates :=
                (\<lambda>error_type.
                   map_option (\<lambda>timestamps. deque_of 100 (filter (\<lambda>ts. now - ts < 3600) timestamps))
                     (error_rates self error_type))\<rparr>)"

subsection \<open>Python floats\<close>

text \<open>
  A Python float is an IEEE 754 binary64 number: a real of the form \<open>n * 2 ^ k\<close> with at
  most 53 significant bits. \<open>round_to_double\<close> is rounding to nearest, ties to
  even: the unit of the last place at \<open>x\<close> is \<open>2 ^ (e - 52)\<close>, where \<open>e\<close> is the binary
  exponent of \<open>x\<close> and at least -1022 (below that the numbers are subnormal), and \<open>x\<close>
  moves to the nearest multiple of that unit. A decimal literal of the source denotes
  the rounded value of the decimal. The quotient \<^verbatim>\<open>a / b\<close> of two Python integers is the
  correctly rounded quotient; it raises when the divisor is zero and when the rounded
  quotient is outside the range of the floats.
\<close>

definition round_half_even :: "real \<Rightarrow> int" where
  "round_half_even y =
     (let f = \<lfloor>y\<rfloor>; r = y - of_int f
      in if r < 1 / 2 then f else if r > 1 / 2 then f + 1 else if even f then f else f + 1)"

definition double_exponent :: "real \<Rightarrow> int" where
  "double_exponent x = max (- 1022) \<lfloor>log 2 \<bar>x\<bar>\<rfloor>"

definition double_ulp :: "real \<Rightarrow> real" where
  "double_ulp x = 2 powr (of_int (double_exponent x) - 52)"

definition round_to_double :: "real \<Rightarrow> real" where
  "round_to_double x =
     (if x = 0 then 0 else of_int (round_half_even (x / double_ulp x)) * double_ulp x)"

definition float_literal :: "real \<Rightarrow> real" where
  "float_literal decimal = round_to_double decimal"

definition int_truediv :: "int \<Rightarrow> int \<Rightarrow> py_exception + real" where
  "int_truediv a b =
     (if b = 0 then Inl (PyException ''ZeroDivisionError'' ''division by zero'')
      else let q = round_to_double (of_int a / of_int b)
           in if \<bar>q\<bar> \<ge> 2 ^ 1024
              then Inl (PyException ''OverflowError''
                          ''integer division result too large for a float'')
              else Inr q)"

subsection \<open>The health tag and the summary\<close>

text \<open>
  \<^verbatim>\<open>_calculate_system_health\<close>: the two counters are integers, their quotient a float,
  compared with the floats that the literals 0.5 and 0.2 denote.
\<close>

definition calculate_system_health :: "MonitoringService \<Rightarrow> py_exception + string" where
  "calculate_system_health self =
     (let total_tasks' = total_tasks (task_stats self);
          failed_tasks' = failed_tasks (task_stats self)
      in if total_tasks' = 0 then Inr ''unknown''
         else case int_truediv failed_tasks' total_tasks' of
                Inl e \<Rightarrow> Inl e
              | Inr failure_rate \<Rightarrow>
                  Inr (if failure_rate > float_literal 0.5 then ''critical''
                       else if failure_rate > float_literal 0.2 then ''warning''
                       else ''healthy''))"

text \<open>
  \<^verbatim>\<open>get_metrics_summary\<close> is a read-only view. The model keeps the task statistics, the
  error counts, the number of errors of each type in the last five minutes and the
  health tag; the entries \<^verbatim>\<open>recent_metrics\<close> and \<^verbatim>\<open>active_timers\<close> list stored values and
  are left out. An exception of the health computation leaves the call.
\<close>

record MetricsSummary =
  summary_task_stats :: TaskStats
  summary_error_counts :: "string \<rightharpoonup> int"
  error_rates_5min :: "string \<rightharpoonup> nat"
  system_health :: string

definition get_metrics_summary :: "real \<Rightarrow> MonitoringService \<Rightarrow> py_exception + MetricsSummary"
  where
  "get_metrics_summary now self =
     (case calculate_system_health self of
        Inl e \<Rightarrow> Inl e
      | Inr health \<Rightarrow>
          Inr \<lparr>summary_task_stats = task_stats self,
               summary_error_counts = error_counts self,
               error_rates_5min =
                 (\<lambda>error_type.
                    map_option (\<lambda>timestamps. length (filter (\<lambda>ts. now - ts < 300) timestamps))
                      (error_rates self error_type)),
               system_health = health\<rparr>)"

text \<open>The calls that change the service, and a service after a sequence of them.\<close>

datatype monitoring_call =
  RecordMetric real string real "(string \<times> string) list"
| RecordError real py_exception "string option"
| StartTimer real string
| StopTimer real string
| RecordTaskCompleted real string real
| RecordTaskRetry real string nat
| ClearOldData real int

fun monitoring_apply :: "MonitoringService \<Rightarrow> monitoring_call \<Rightarrow> MonitoringService" where
  "monitoring_apply self (RecordMetric now name v tgs) = record_metric now name v tgs self"
| "monitoring_apply self (RecordError now error task_id) = record_error now error task_id self"
| "monitoring_apply self (StartTimer now name) = start_timer now name self"
| "monitoring_apply self (StopTimer now name) = snd (stop_timer now name self)"
| "monitoring_apply self (RecordTaskCompleted now task_id t) =
     record_task_completed now task_id t self"
| "monitoring_apply self (RecordTaskRetry now task_id n) = record_task_retry now task_id n self"
| "monitoring_apply self (ClearOldData now days) = clear_old_data now days self"

definition monitoring_after :: "nat \<Rightarrow> nat \<Rightarrow> monitoring_call list \<Rightarrow> MonitoringService" where
  "monitoring_after max_metrics max_errors calls =
     foldl monitoring_apply (MonitoringService_init max_metrics max_errors) calls"

text \<open>
  The health tag as the specification words it, from the two counters: unknown without
  tasks, else by the failure ratio, below 0.2 healthy, below 0.5 warning, else critical.
\<close>

definition spec_health_tag :: "int \<Rightarrow> int \<Rightarrow> string" where
  "spec_health_tag n_failed n_total =
     (if n_total = 0 then ''unknown''
      else let ratio = real_of_int n_failed / real_of_int n_total
           in if ratio < 0.2 then ''healthy''
              else if ratio < 0.5 then ''warning''
              else ''critical'')"

text \<open>A service whose counters stand at the given numbers of failed and of all tasks.\<close>

definition service_with_counts :: "int \<Rightarrow> int \<Rightarrow> MonitoringService" where
  "service_with_counts n_failed n_total =
     (MonitoringService_init 1000 500)
       \<lparr>task_stats := \<lparr>total_tasks = n_total, completed_tasks = n_total - n_failed,
                       failed_tasks = n_failed, retried_tasks = 0,
                       average_processing_time = 0\<rparr>\<rparr>"

section \<open>The health monitor (app/services/health_monitor.py)\<close>

record HealthStatus =
  health_timestamp :: real
  overall_status :: string
  issues :: "string list"
  recommendations :: "string list"
  cpu_usage :: real
  memory_usage :: real
  gpu_available :: bool
  gpu_memory_usage :: real
  gpu_temperature :: "real option"
  health_active_tasks :: int
  failed_tasks_count :: int
  stuck_tasks_count :: int

text \<open>
  The reads of the dictionary that \<^verbatim>\<open>check_gpu_memory\<close> returns:
  \<^verbatim>\<open>get("available", False)\<close>, \<^verbatim>\<open>get("memory_percent", 0)\<close>, \<^verbatim>\<open>get("temperature")\<close>.
\<close>

definition report_available :: "gpu_memory_report \<Rightarrow> bool" where
  "report_available r = (case r of GpuUnavailable \<Rightarrow> False | GpuAvailable _ _ \<Rightarrow> True)"

definition report_memory_percent :: "gpu_memory_report \<Rightarrow> real" where
  "report_memory_percent r =
     (case r of GpuUnavailable \<Rightarrow> 0 | GpuAvailable status _ \<Rightarrow> memory_percent status)"

definition report_temperature :: "gpu_memory_report \<Rightarrow> real option" where
  "report_temperature r =
     (case r of GpuUnavailable \<Rightarrow> None | GpuAvailable status _ \<Rightarrow> temperature status)"

text \<open>
  The issue texts. Glosses: \<open>issue_cpu_prefix\<close> "CPU usage too high: ",
  \<open>issue_memory_prefix\<close> "memory usage too high: ", \<open>issue_disk_prefix\<close> "disk space
  insufficient: ", \<open>issue_gpu_memory_prefix\<close> "GPU memory usage too high: ",
  \<open>issue_gpu_temperature_prefix\<close> "GPU temperature too high: "; the text for a missing
  device is \<^const>\<open>reason_gpu_unavailable\<close>. The constants \<open>rec_\<dots>\<close> are the
  recommendations that go with them.
\<close>

definition issue_cpu_prefix :: string where
  "issue_cpu_prefix = ''CPU '' @ [CHR 0xE4, CHR 0xBD, CHR 0xBF, CHR 0xE7, CHR 0x94,
      CHR 0xA8, CHR 0xE7, CHR 0x8E, CHR 0x87, CHR 0xE9, CHR 0x81, CHR 0x8E, CHR 0xE9,
      CHR 0xAB, CHR 0x98] @ '': ''"

definition issue_memory_prefix :: string where
  "issue_memory_prefix = [CHR 0xE8, CHR 0xA8, CHR 0x98, CHR 0xE6, CHR 0x86, CHR 0xB6,
      CHR 0xE9, CHR 0xAB, CHR 0x94, CHR 0xE4, CHR 0xBD, CHR 0xBF, CHR 0xE7, CHR 0x94,
      CHR 0xA8, CHR 0xE7, CHR 0x8E, CHR 0x87, CHR 0xE9, CHR 0x81, CHR 0x8E, CHR 0xE9,
      CHR 0xAB, CHR 0x98] @ '': ''"

definition issue_disk_prefix :: string where
  "issue_disk_prefix = [CHR 0xE7, CHR 0xA3, CHR 0x81, CHR 0xE7, CHR 0xA2, CHR 0x9F,
      CHR 0xE7, CHR 0xA9, CHR 0xBA, CHR 0xE9, CHR 0x96, CHR 0x93, CHR 0xE4, CHR 0xB8,
      CHR 0x8D, CHR 0xE8, CHR 0xB6, CHR 0xB3] @ '': ''"

definition issue_gpu_memory_prefix :: string where
  "issue_gpu_memory_prefix = ''GPU '' @ [CHR 0xE8, CHR 0xA8, CHR 0x98, CHR 0xE6,
      CHR 0x86, CHR 0xB6, CHR 0xE9, CHR 0xAB, CHR 0x94, CHR 0xE4, CHR 0xBD, CHR 0xBF,
      CHR 0xE7, CHR 0x94, CHR 0xA8, CHR 0xE7, CHR 0x8E, CHR 0x87, CHR 0xE9, CHR 0x81,
      CHR 0x8E, CHR 0xE9, CHR 0xAB, CHR 0x98] @ '': ''"

definition issue_gpu_temperature_prefix :: string where
  "issue_gpu_temperature_prefix = ''GPU '' @ [CHR 0xE6, CHR 0xBA, CHR 0xAB, CHR 0xE5,
      CHR 0xBA, CHR 0xA6, CHR 0xE9, CHR 0x81, CHR 0x8E, CHR 0xE9, CHR 0xAB, CHR 0x98] @
      '': ''"

definition degrees_celsius :: string where
  "degrees_celsius = [CHR 0xC2, CHR 0xB0] @ ''C''"

definition rec_cpu :: string where
  "rec_cpu = [CHR 0xE8, CHR 0x80, CHR 0x83, CHR 0xE6, CHR 0x85, CHR 0xAE, CHR 0xE5,
      CHR 0xA2, CHR 0x9E, CHR 0xE5, CHR 0x8A, CHR 0xA0] @ '' CPU '' @ [CHR 0xE8,
      CHR 0xB3, CHR 0x87, CHR 0xE6, CHR 0xBA, CHR 0x90, CHR 0xE6, CHR 0x88, CHR 0x96,
      CHR 0xE5, CHR 0x84, CHR 0xAA, CHR 0xE5, CHR 0x8C, CHR 0x96, CHR 0xE7, CHR 0xA8,
      CHR 0x8B, CHR 0xE5, CHR 0xBC, CHR 0x8F, CHR 0xE7, CHR 0xA2, CHR 0xBC]"

definition rec_memory :: string where
  "rec_memory = [CHR 0xE8, CHR 0x80, CHR 0x83, CHR 0xE6, CHR 0x85, CHR 0xAE, CHR 0xE5,
      CHR 0xA2, CHR 0x9E, CHR 0xE5, CHR 0x8A, CHR 0xA0, CHR 0xE8, CHR 0xA8, CHR 0x98,
      CHR 0xE6, CHR 0x86, CHR 0xB6, CHR 0xE9, CHR 0xAB, CHR 0x94, CHR 0xE6, CHR 0x88,
      CHR 0x96, CHR 0xE5, CHR 0x84, CHR 0xAA, CHR 0xE5, CHR 0x8C, CHR 0x96, CHR 0xE8,
      CHR 0xA8, CHR 0x98, CHR 0xE6, CHR 0x86, CHR 0xB6, CHR 0xE9, CHR 0xAB, CHR 0x94,
      CHR 0xE4, CHR 0xBD, CHR 0xBF, CHR 0xE7, CHR 0x94, CHR 0xA8]"

definition rec_disk :: string where
  "rec_disk = [CHR 0xE6, CHR 0xB8, CHR 0x85, CHR 0xE7, CHR 0x90, CHR 0x86, CHR 0xE7,
      CHR 0xA3, CHR 0x81, CHR 0xE7, CHR 0xA2, CHR 0x9F, CHR 0xE7, CHR 0xA9, CHR 0xBA,
      CHR 0xE9, CHR 0x96, CHR 0x93, CHR 0xE6, CHR 0x88, CHR 0x96, CHR 0xE5, CHR 0xA2,
      CHR 0x9E, CHR 0xE5, CHR 0x8A, CHR 0xA0, CHR 0xE5, CHR 0x84, CHR 0xB2, CHR 0xE5,
      CHR 0xAD, CHR 0x98, CHR 0xE5, CHR 0xAE, CHR 0xB9, CHR 0xE9, CHR 0x87, CHR 0x8F]"

definition rec_gpu_driver :: string where
  "rec_gpu_driver = [CHR 0xE6, CHR 0xAA, CHR 0xA2, CHR 0xE6, CHR 0x9F, CHR 0xA5] @
      '' GPU '' @ [CHR 0xE9, CHR 0xA9, CHR 0x85, CHR 0xE5, CHR 0x8B, CHR 0x95, CHR 0xE7,
      CHR 0xA8, CHR 0x8B, CHR 0xE5, CHR 0xBC, CHR 0x8F, CHR 0xE5, CHR 0x92, CHR 0x8C] @
      '' CUDA '' @ [CHR 0xE5, CHR 0xAE, CHR 0x89, CHR 0xE8, CHR 0xA3, CHR 0x9D]"

definition rec_gpu_memory :: string where
  "rec_gpu_memory = [CHR 0xE6, CHR 0xB8, CHR 0x85, CHR 0xE7, CHR 0x90, CHR 0x86] @
      '' GPU '' @ [CHR 0xE8, CHR 0xA8, CHR 0x98, CHR 0xE6, CHR 0x86, CHR 0xB6, CHR 0xE9,
      CHR 0xAB, CHR 0x94, CHR 0xE6, CHR 0x88, CHR 0x96, CHR 0xE6, CHR 0xB8, CHR 0x9B,
      CHR 0xE5, CHR 0xB0, CHR 0x91, CHR 0xE4, CHR 0xBD, CHR 0xB5, CHR 0xE7, CHR 0x99,
      CHR 0xBC, CHR 0xE4, CHR 0xBB, CHR 0xBB, CHR 0xE5, CHR 0x8B, CHR 0x99]"

definition rec_gpu_cooling :: string where
  "rec_gpu_cooling = [CHR 0xE6, CHR 0xAA, CHR 0xA2, CHR 0xE6, CHR 0x9F, CHR 0xA5] @
      '' GPU '' @ [CHR 0xE6, CHR 0x95, CHR 0xA3, CHR 0xE7, CHR 0x86, CHR 0xB1, CHR 0xE6,
      CHR 0x88, CHR 0x96, CHR 0xE6, CHR 0xB8, CHR 0x9B, CHR 0xE5, CHR 0xB0, CHR 0x91,
      CHR 0xE5, CHR 0xB7, CHR 0xA5, CHR 0xE4, CHR 0xBD, CHR 0x9C, CHR 0xE8, CHR 0xB2,
      CHR 0xA0, CHR 0xE8, CHR 0xBC, CHR 0x89]"

text \<open>
  Keywords: \<open>kw_unavailable\<close> "not available", \<open>kw_insufficient\<close> "insufficient",
  \<open>kw_too_high\<close> "too high", \<open>kw_warning\<close> "warning", \<open>kw_attention\<close> "attention",
  \<open>kw_gpu_memory\<close> "GPU memory", \<open>kw_task\<close> "task".
\<close>

definition kw_unavailable :: string where
  "kw_unavailable = [CHR 0xE4, CHR 0xB8, CHR 0x8D, CHR 0xE5, CHR 0x8F, CHR 0xAF,
      CHR 0xE7, CHR 0x94, CHR 0xA8]"

definition kw_insufficient :: string where
  "kw_insufficient = [CHR 0xE4, CHR 0xB8, CHR 0x8D, CHR 0xE8, CHR 0xB6, CHR 0xB3]"

definition kw_too_high :: string where
  "kw_too_high = [CHR 0xE9, CHR 0x81, CHR 0x8E, CHR 0xE9, CHR 0xAB, CHR 0x98]"

definition kw_warning :: string where
  "kw_warning = [CHR 0xE8, CHR 0xAD, CHR 0xA6, CHR 0xE5, CHR 0x91, CHR 0x8A]"

definition kw_attention :: string where
  "kw_attention = [CHR 0xE6, CHR 0xB3, CHR 0xA8, CHR 0xE6, CHR 0x84, CHR 0x8F]"

definition kw_gpu_memory :: string where
  "kw_gpu_memory = ''GPU '' @ [CHR 0xE8, CHR 0xA8, CHR 0x98, CHR 0xE6, CHR 0x86,
      CHR 0xB6, CHR 0xE9, CHR 0xAB, CHR 0x94]"

definition kw_task :: string where
  "kw_task = [CHR 0xE4, CHR 0xBB, CHR 0xBB, CHR 0xE5, CHR 0x8B, CHR 0x99]"

definition append_issue :: "string \<Rightarrow> string \<Rightarrow> HealthStatus \<Rightarrow> HealthStatus" where
  \<comment> \<open>\<^verbatim>\<open>issues.append(\<dots>)\<close> followed by \<^verbatim>\<open>recommendations.append(\<dots>)\<close>\<close>
  "append_issue issue recommendation h =
     h\<lparr>issues := issues h @ [issue], recommendations := recommendations h @ [recommendation]\<rparr>"

text \<open>
  The parameter \<open>fmt\<close> is Python's formatting of a float with one decimal
  (\<^verbatim>\<open>{x:.1f}\<close>). The disk usage is a pair of integers, and a total of zero makes the
  division raise.
\<close>

definition check_resource_issues ::
  "(real \<Rightarrow> string) \<Rightarrow> HealthStatus \<Rightarrow> real \<Rightarrow> real \<Rightarrow> int \<Rightarrow> int \<Rightarrow> py_exception + HealthStatus"
  where
  "check_resource_issues fmt health_status cpu_percent memory_percnt disk_used disk_total =
     (let h1 = (if cpu_percent > 90
                then append_issue (issue_cpu_prefix @ fmt cpu_percent @ ''%'') rec_cpu
                       health_status
                else health_status);
          h2 = (if memory_percnt > 85
                then append_issue (issue_memory_prefix @ fmt memory_percnt @ ''%'') rec_memory h1
                else h1)
      in if disk_total = 0 then Inl (PyException ''ZeroDivisionError'' ''division by zero'')
         else let disk_percent = (real_of_int disk_used / real_of_int disk_total) * 100
              in Inr (if disk_percent > 90
                      then append_issue (issue_disk_prefix @ fmt disk_percent @ ''%'') rec_disk h2
                      else h2))"

definition check_gpu_issues ::
  "(real \<Rightarrow> string) \<Rightarrow> HealthStatus \<Rightarrow> gpu_memory_report \<Rightarrow> HealthStatus" where
  "check_gpu_issues fmt health_status gpu_status =
     (if \<not> report_available gpu_status
      then append_issue reason_gpu_unavailable rec_gpu_driver health_status
      else
        let gpu_memory_percent = report_memory_percent gpu_status;
            h1 = (if gpu_memory_percent > 90
                  then append_issue (issue_gpu_memory_prefix @ fmt gpu_memory_percent @ ''%'')
                         rec_gpu_memory health_status
                  else health_status)
        in case report_temperature gpu_status of
             None \<Rightarrow> h1
           | Some gpu_temp \<Rightarrow>
               if gpu_temp \<noteq> 0 \<and> gpu_temp > 85
               then append_issue (issue_gpu_temperature_prefix @ fmt gpu_temp @ degrees_celsius)
                      rec_gpu_cooling h1
               else h1)"

definition check_task_issues :: "HealthStatus \<Rightarrow> HealthStatus" where
  \<comment> \<open>the body of the source is \<^verbatim>\<open>pass\<close>\<close>
  "check_task_issues health_status = health_status"

definition critical_keywords :: "string list" where
  "critical_keywords = [kw_unavailable, kw_insufficient, kw_too_high]"

definition warning_keywords :: "string list" where
  "warning_keywords = [kw_warning, kw_attention]"

definition determine_overall_status :: "HealthStatus \<Rightarrow> HealthStatus" where
  "determine_overall_status health_status =
     (let has_critical =
            list_ex (\<lambda>issue. list_ex (\<lambda>keyword. str_contains keyword issue) critical_keywords)
              (issues health_status);
          has_warning =
            list_ex (\<lambda>issue. list_ex (\<lambda>keyword. str_contains keyword issue) warning_keywords)
              (issues health_status)
      in if has_critical then health_status\<lparr>overall_status := ''critical''\<rparr>
         else if has_warning \<or> issues health_status \<noteq> []
         then health_status\<lparr>overall_status := ''warning''\<rparr>
         else health_status\<lparr>overall_status := ''healthy''\<rparr>)"

datatype recovery = ForceGpuCleanup | CleanupStuckTasks

definition auto_recovery :: "HealthStatus \<Rightarrow> recovery list" where
  "auto_recovery health_status =
     (if list_ex (str_contains kw_gpu_memory) (issues health_status)
      then [ForceGpuCleanup] else [])
     @ (if list_ex (str_contains kw_task) (issues health_status)
        then [CleanupStuckTasks] else [])"

text \<open>
  One health check. The inputs are the readings of psutil and of the device. The source
  keeps the snapshot in a local variable and returns nothing; the model returns the
  snapshot and the recovery actions taken, or the exception that the source catches and
  logs.
\<close>

definition perform_health_check ::
  "(real \<Rightarrow> string) \<Rightarrow> real \<Rightarrow> real \<Rightarrow> real \<Rightarrow> GPUResourceManager \<Rightarrow> GPUStatus \<Rightarrow> int \<Rightarrow> int \<Rightarrow>
   py_exception + HealthStatus \<times> recovery list" where
  "perform_health_check fmt now cpu_percent memory_percnt gpu_mgr probe disk_used disk_total =
     (let gpu_status = check_gpu_memory gpu_mgr probe;
          health_status =
            \<lparr>health_timestamp = now, overall_status = ''healthy'', issues = [],
             recommendations = [], cpu_usage = cpu_percent, memory_usage = memory_percnt,
             gpu_available = report_available gpu_status,
             gpu_memory_usage = report_memory_percent gpu_status,
             gpu_temperature = report_temperature gpu_status,
             health_active_tasks = 0, failed_tasks_count = 0, stuck_tasks_count = 0\<rparr>
      in case check_resource_issues fmt health_status cpu_percent memory_percnt
                disk_used disk_total of
           Inl e \<Rightarrow> Inl e
         | Inr h1 \<Rightarrow>
             (let h2 = check_gpu_issues fmt h1 gpu_status;
                  h3 = check_task_issues h2;
                  h4 = determine_overall_status h3
              in Inr (h4, auto_recovery h4)))"

text \<open>An issue text that one of the critical keywords occurs in.\<close>

definition has_critical_keyword :: "string \<Rightarrow> bool" where
  "has_critical_keyword issue =
     list_ex (\<lambda>keyword. str_contains keyword issue) critical_keywords"

section \<open>Tasks: the executor and the cancel request\<close>

text \<open>
  A task record is the dictionary that \<^verbatim>\<open>process_image\<close> (app/api/routes.py) stores in
  \<^verbatim>\<open>tasks_db\<close>. The keys that the executor adds later (\<^verbatim>\<open>retry_count\<close>, \<^verbatim>\<open>retry_history\<close>,
  \<^verbatim>\<open>result_path\<close>, \<^verbatim>\<open>error_message\<close>, \<^verbatim>\<open>metadata\<close>) and the key \<^verbatim>\<open>max_retries\<close>, which the
  executor reads with a default, are optional fields. The status is one of the five
  strings of \<^verbatim>\<open>TaskStatus\<close> (app/models/schemas.py). The processing parameters are handed
  to the renderer unread, except for the output format, and are not part of the record.
\<close>

datatype TaskStatus = Pending | Processing | Completed | Failed | Cancelled

record RetryEntry =
  attempt :: nat
  retry_error :: string
  retry_timestamp :: real

record Task =
  task_id :: string
  status :: TaskStatus
  created_at :: real
  updated_at :: real
  progress :: int
  message :: string
  file_path :: string
  webhook_url :: "string option"
  retry_count :: "nat option"
  max_retries :: "nat option"
  retry_history :: "RetryEntry list option"
  result_path :: "string option"
  error_message :: "string option"
  metadata :: "(nat \<times> real) option"

text \<open>
  What the process does to the outside, in order: the lines of the slot guard, the
  assignments to a task's status, the waits, the answers to cancel requests (the HTTP
  status code), the webhook posts and the removal of a task's files.
\<close>

datatype effect =
  Slot slot_event
| StatusSet string TaskStatus
| Slept nat
| Responded nat
| WebhookPosted string
| FilesCleaned string

text \<open>
  The module-level state of the process: the two singletons, the task table, the clock
  as last read, and the effects so far.
\<close>

record world =
  gpu_manager :: GPUResourceManager
  monitoring_service :: MonitoringService
  tasks_db :: "string \<rightharpoonup> Task"
  clock :: real
  effects :: "effect list"

definition emit :: "effect \<Rightarrow> world \<Rightarrow> world" where
  "emit e w = w\<lparr>effects := effects w @ [e]\<rparr>"

definition monitor :: "(MonitoringService \<Rightarrow> MonitoringService) \<Rightarrow> world \<Rightarrow> world" where
  "monitor f w = w\<lparr>monitoring_service := f (monitoring_service w)\<rparr>"

definition put_gpu_manager :: "GPUResourceManager \<Rightarrow> world \<Rightarrow> world" where
  "put_gpu_manager m w = w\<lparr>gpu_manager := m\<rparr>"

text \<open>
  A write to the dictionary of a task. The executor holds a reference to the dictionary
  it found in the table, and no code removes an entry, so the write always reaches the
  table.
\<close>

definition modify_task :: "string \<Rightarrow> (Task \<Rightarrow> Task) \<Rightarrow> world \<Rightarrow> world" where
  "modify_task tid f w =
     (case tasks_db w tid of
        None \<Rightarrow> w
      | Some task \<Rightarrow> w\<lparr>tasks_db := (tasks_db w)(tid \<mapsto> f task)\<rparr>)"

definition set_status :: "string \<Rightarrow> TaskStatus \<Rightarrow> world \<Rightarrow> world" where
  "set_status tid s w = emit (StatusSet tid s) (modify_task tid (\<lambda>task. task\<lparr>status := s\<rparr>) w)"

subsection \<open>The cancel request (app/api/routes.py)\<close>

text \<open>Glosses: \<open>msg_created\<close> "task created, waiting to be processed", \<open>msg_cancelled\<close>
  "task cancelled".\<close>

definition msg_created :: string where
  "msg_created = [CHR 0xE4, CHR 0xBB, CHR 0xBB, CHR 0xE5, CHR 0x8B, CHR 0x99, CHR 0xE5,
      CHR 0xB7, CHR 0xB2, CHR 0xE5, CHR 0xBB, CHR 0xBA, CHR 0xE7, CHR 0xAB, CHR 0x8B,
      CHR 0xEF, CHR 0xBC, CHR 0x8C, CHR 0xE7, CHR 0xAD, CHR 0x89, CHR 0xE5, CHR 0xBE,
      CHR 0x85, CHR 0xE8, CHR 0x99, CHR 0x95, CHR 0xE7, CHR 0x90, CHR 0x86]"

definition msg_cancelled :: string where
  "msg_cancelled = [CHR 0xE4, CHR 0xBB, CHR 0xBB, CHR 0xE5, CHR 0x8B, CHR 0x99,
      CHR 0xE5, CHR 0xB7, CHR 0xB2, CHR 0xE5, CHR 0x8F, CHR 0x96, CHR 0xE6, CHR 0xB6,
      CHR 0x88]"

datatype http_error = HTTPException (status_code: nat) (error_name: string)

definition cancel_task :: "string \<Rightarrow> world \<Rightarrow> http_error + world" where
  "cancel_task tid w =
     (case tasks_db w tid of
        None \<Rightarrow> Inl (HTTPException 404 ''task_not_found'')
      | Some task \<Rightarrow>
          if status task \<in> set [Completed, Failed, Cancelled]
          then Inl (HTTPException 400 ''task_not_cancellable'')
          else Inr (modify_task tid
                      (\<lambda>task. task\<lparr>updated_at := clock w, message := msg_cancelled\<rparr>)
                      (set_status tid Cancelled w)))"

text \<open>The request served, with its answer sent: 200 with the success message, or the error.\<close>

definition serve_cancel :: "string \<Rightarrow> world \<Rightarrow> world" where
  "serve_cancel tid w =
     (case cancel_task tid w of
        Inl e \<Rightarrow> emit (Responded (status_code e)) w
      | Inr w' \<Rightarrow> emit (Responded 200) w')"

text \<open>The record that \<^verbatim>\<open>process_image\<close> creates for an upload.\<close>

definition new_task :: "string \<Rightarrow> string \<Rightarrow> string option \<Rightarrow> real \<Rightarrow> Task" where
  "new_task tid path webhook now =
     \<lparr>task_id = tid, status = Pending, created_at = now, updated_at = now, progress = 0,
      message = msg_created, file_path = path, webhook_url = webhook,
      retry_count = None, max_retries = None, retry_history = None, result_path = None,
      error_message = None, metadata = None\<rparr>"

subsection \<open>The executor (app/tasks/processing.py)\<close>

text \<open>
  Glosses: \<open>msg_processing_image\<close> "processing the image...", \<open>msg_waiting_gpu\<close> "waiting
  for GPU resources...", \<open>msg_start_gpu\<close> "starting GPU processing...", \<open>msg_done\<close>
  "processing complete", \<open>msg_failed\<close> "processing failed", \<open>msg_retry_prefix\<close>
  "processing failed, preparing to retry (", \<open>err_depthflow_failed\<close> "DepthFlow processing
  failed".
\<close>

definition msg_processing_image :: string where
  "msg_processing_image = [CHR 0xE6, CHR 0xAD, CHR 0xA3, CHR 0xE5, CHR 0x9C, CHR 0xA8,
      CHR 0xE8, CHR 0x99, CHR 0x95, CHR 0xE7, CHR 0x90, CHR 0x86, CHR 0xE5, CHR 0x9C,
      CHR 0x96, CHR 0xE7, CHR 0x89, CHR 0x87] @ ''...''"

definition msg_waiting_gpu :: string where
  "msg_waiting_gpu = [CHR 0xE7, CHR 0xAD, CHR 0x89, CHR 0xE5, CHR 0xBE, CHR 0x85] @
      '' GPU '' @ [CHR 0xE8, CHR 0xB3, CHR 0x87, CHR 0xE6, CHR 0xBA, CHR 0x90] @ ''...''"

definition msg_start_gpu :: string where
  "msg_start_gpu = [CHR 0xE9, CHR 0x96, CHR 0x8B, CHR 0xE5, CHR 0xA7, CHR 0x8B] @
      '' GPU '' @ [CHR 0xE8, CHR 0x99, CHR 0x95, CHR 0xE7, CHR 0x90, CHR 0x86] @ ''...''"

definition msg_done :: string where
  "msg_done = [CHR 0xE8, CHR 0x99, CHR 0x95, CHR 0xE7, CHR 0x90, CHR 0x86, CHR 0xE5,
      CHR 0xAE, CHR 0x8C, CHR 0xE6, CHR 0x88, CHR 0x90]"

definition msg_failed :: string where
  "msg_failed = [CHR 0xE8, CHR 0x99, CHR 0x95, CHR 0xE7, CHR 0x90, CHR 0x86, CHR 0xE5,
      CHR 0xA4, CHR 0xB1, CHR 0xE6, CHR 0x95, CHR 0x97]"

definition msg_retry_prefix :: string where
  "msg_retry_prefix = [CHR 0xE8, CHR 0x99, CHR 0x95, CHR 0xE7, CHR 0x90, CHR 0x86,
      CHR 0xE5, CHR 0xA4, CHR 0xB1, CHR 0xE6, CHR 0x95, CHR 0x97, CHR 0xEF, CHR 0xBC,
      CHR 0x8C, CHR 0xE6, CHR 0xBA, CHR 0x96, CHR 0xE5, CHR 0x82, CHR 0x99, CHR 0xE9,
      CHR 0x87, CHR 0x8D, CHR 0xE8, CHR 0xA9, CHR 0xA6] @ '' (''"

definition err_depthflow_failed :: string where
  "err_depthflow_failed = ''DepthFlow '' @ [CHR 0xE8, CHR 0x99, CHR 0x95, CHR 0xE7,
      CHR 0x90, CHR 0x86, CHR 0xE5, CHR 0xA4, CHR 0xB1, CHR 0xE6, CHR 0x95, CHR 0x97]"

text \<open>
  What one attempt meets outside the executor: the clock before and after the render,
  the verdict of the image validator, the reading of the device, what happens during the
  render (the renderer's progress callbacks and, where the coroutine is suspended, a
  cancel request for the task being served), the renderer's result, the size of the
  output file if it exists, and whether a cancel request is served during the wait
  before the next attempt.
\<close>

datatype render_event = ProgressCallback int string | CancelArrives

record attempt_env =
  t_started :: real
  t_finished :: real
  image_valid :: bool
  gpu_probe :: GPUStatus
  render_events :: "render_event list"
  render_ok :: bool
  output_size :: "nat option"
  cancel_during_backoff :: bool

definition output_dir :: string where
  "output_dir = ''./storage/outputs''"

definition get_output_path :: "string \<Rightarrow> string \<Rightarrow> string" where
  "get_output_path tid format = output_dir @ ''/'' @ tid @ ''_output.'' @ format"

definition update_progress :: "string \<Rightarrow> int \<Rightarrow> string \<Rightarrow> world \<Rightarrow> world" where
  "update_progress tid p m w =
     modify_task tid (\<lambda>task. task\<lparr>progress := p, message := m, updated_at := clock w\<rparr>) w"

fun render_step :: "string \<Rightarrow> world \<Rightarrow> render_event \<Rightarrow> world" where
  "render_step tid w (ProgressCallback p m) = update_progress tid p m w"
| "render_step tid w CancelArrives = serve_cancel tid w"

text \<open>The block guarded by the slot: the renderer catches its own exceptions and returns
  a truth value.\<close>

definition guarded_block :: "string \<Rightarrow> attempt_env \<Rightarrow> world \<Rightarrow> (py_exception + bool) \<times> world" where
  "guarded_block tid env w =
     (let w1 = modify_task tid (\<lambda>task. task\<lparr>message := msg_start_gpu\<rparr>) w;
          w2 = update_progress tid 20 msg_start_gpu w1;
          w3 = foldl (render_step tid) w2 (render_events env);
          w4 = w3\<lparr>clock := t_finished env\<rparr>
      in (Inr (render_ok env), w4))"

definition on_success :: "string \<Rightarrow> string \<Rightarrow> attempt_env \<Rightarrow> world \<Rightarrow> world" where
  "on_success tid output_path env w =
     (let w1 = set_status tid Completed w;
          w2 = modify_task tid
                 (\<lambda>task. task\<lparr>progress := 100, message := msg_done,
                              result_path := Some output_path, updated_at := clock w\<rparr>) w1;
          processing_time = clock w - t_started env;
          w3 = (case output_size env of
                  None \<Rightarrow> w2
                | Some file_size \<Rightarrow>
                    modify_task tid
                      (\<lambda>task. task\<lparr>metadata := Some (file_size, processing_time)\<rparr>) w2);
          w4 = monitor (record_task_completed (clock w) tid processing_time) w3
      in case tasks_db w4 tid of
           None \<Rightarrow> w4
         | Some task \<Rightarrow> if truthy (webhook_url task) then emit (WebhookPosted tid) w4 else w4)"

definition try_block ::
  "string \<Rightarrow> string option \<Rightarrow> attempt_env \<Rightarrow> world \<Rightarrow> (py_exception + unit) \<times> world" where
  "try_block tid output_format env w =
     (let w1 = set_status tid Processing w;
          w2 = modify_task tid
                 (\<lambda>task. task\<lparr>updated_at := clock w, message := msg_processing_image\<rparr>) w1
      in if \<not> image_valid env then (Inl (Exception kw_invalid_image), w2)
         else
           let output_path =
                 get_output_path tid (case output_format of None \<Rightarrow> ''mp4'' | Some f \<Rightarrow> f);
               w3 = modify_task tid (\<lambda>task. task\<lparr>message := msg_waiting_gpu\<rparr>) w2;
               w4 = update_progress tid 10 msg_waiting_gpu w3
           in case acquire_gpu_slot gpu_manager put_gpu_manager (\<lambda>e. emit (Slot e)) tid
                     (gpu_probe env) (guarded_block tid env) w4 of
                (Inl e, w5) \<Rightarrow> (Inl e, w5)
              | (Inr success, w5) \<Rightarrow>
                  if success then (Inr (), on_success tid output_path env w5)
                  else (Inl (Exception err_depthflow_failed), w5))"

text \<open>The reads \<^verbatim>\<open>task.get('retry_count', 0)\<close> and \<^verbatim>\<open>task.get('max_retries', 3)\<close>.\<close>

definition current_retry_count :: "Task \<Rightarrow> nat" where
  "current_retry_count task = (case retry_count task of None \<Rightarrow> 0 | Some n \<Rightarrow> n)"

definition current_max_retries :: "Task \<Rightarrow> nat" where
  "current_max_retries task = (case max_retries task of None \<Rightarrow> 3 | Some n \<Rightarrow> n)"

definition current_retry_history :: "Task \<Rightarrow> RetryEntry list" where
  "current_retry_history task = (case retry_history task of None \<Rightarrow> [] | Some h \<Rightarrow> h)"

text \<open>The delay before retry number \<open>n\<close> (\<open>n\<close> is the incremented counter, at least 1).\<close>

definition retry_delay :: "nat \<Rightarrow> nat" where
  "retry_delay n = min (60 * (2 ^ (n - 1))) 300"

datatype verdict = Finished | Resubmit

definition except_block :: "string \<Rightarrow> py_exception \<Rightarrow> world \<Rightarrow> verdict \<times> world" where
  "except_block tid e w =
     (let w1 = monitor (record_error (clock w) e (Some tid)) w
      in case tasks_db w1 tid of
           None \<Rightarrow> (Finished, w1)
         | Some task \<Rightarrow>
             if current_retry_count task < current_max_retries task \<and> should_retry_error (exc_str e)
             then
               let n = current_retry_count task + 1;
                   w2 = modify_task tid (\<lambda>task. task\<lparr>retry_count := Some n\<rparr>) w1;
                   w3 = set_status tid Pending w2;
                   w4 = modify_task tid
                          (\<lambda>task. task
                             \<lparr>message := msg_retry_prefix @ str_nat n @ ''/''
                                           @ str_nat (current_max_retries task) @ '')'',
                              updated_at := clock w,
                              retry_history :=
                                Some (current_retry_history task
                                      @ [\<lparr>attempt = n, retry_error = exc_str e,
                                          retry_timestamp = clock w\<rparr>])\<rparr>) w3;
                   w5 = monitor (record_task_retry (clock w) tid n) w4;
                   delay = retry_delay n;
                   w6 = emit (Slot GpuCacheCleaned) w5;
                   w7 = emit (Slept delay) w6
               in (Resubmit, w7)
             else
               let w2 = set_status tid Failed w1;
                   w3 = modify_task tid
                          (\<lambda>task. task\<lparr>message := msg_failed, error_message := Some (exc_str e),
                                       updated_at := clock w\<rparr>) w2;
                   w4 = monitor (record_metric (clock w) ''task_failed_count'' 1
                                   [(''task_id'', tid)]) w3;
                   w5 = emit (FilesCleaned tid) w4
               in (Finished, w5))"

text \<open>
  The decorator \<^verbatim>\<open>performance_monitor("image_processing")\<close> around every call, the
  recursive ones included.
\<close>

definition wrapper_enter :: "attempt_env \<Rightarrow> world \<Rightarrow> world" where
  "wrapper_enter env w =
     monitor (start_timer (t_started env) ''image_processing_operation'')
       (w\<lparr>clock := t_started env\<rparr>)"

definition wrapper_exit :: "world \<Rightarrow> world" where
  "wrapper_exit w =
     monitor (record_metric (clock w) ''image_processing_success_count'' 1 [])
       (monitor (\<lambda>m. snd (stop_timer (clock w) ''image_processing_operation'' m)) w)"

definition run_attempt :: "string \<Rightarrow> string option \<Rightarrow> attempt_env \<Rightarrow> world \<Rightarrow> verdict \<times> world" where
  "run_attempt tid output_format env w =
     (let w1 = monitor (record_metric (clock w) ''task_started_count'' 1 [(''task_id'', tid)]) w
      in case try_block tid output_format env w1 of
           (Inr _, w2) \<Rightarrow> (Finished, w2)
         | (Inl e, w2) \<Rightarrow> except_block tid e w2)"

definition backoff_wait :: "string \<Rightarrow> attempt_env \<Rightarrow> world \<Rightarrow> world" where
  "backoff_wait tid env w = (if cancel_during_backoff env then serve_cancel tid w else w)"

text \<open>
  \<^verbatim>\<open>process_image_task\<close>. Each call, the first and every resubmission, meets the next
  environment of the list; the retry is the source's call of itself after the wait. A
  run that needs more environments than the list holds has no result (\<open>None\<close>).
\<close>

fun process_image_task ::
  "string \<Rightarrow> string option \<Rightarrow> attempt_env list \<Rightarrow> world \<Rightarrow> world option" where
  "process_image_task tid output_format [] w = None"
| "process_image_task tid output_format (env # envs) w =
     (let w1 = wrapper_enter env w
      in case tasks_db w1 tid of
           None \<Rightarrow> Some (wrapper_exit w1)
         | Some _ \<Rightarrow>
             (case run_attempt tid output_format env w1 of
                (Finished, w2) \<Rightarrow> Some (wrapper_exit w2)
              | (Resubmit, w2) \<Rightarrow>
                  map_option wrapper_exit
                    (process_image_task tid output_format envs (backoff_wait tid env w2))))"

text \<open>Views of the effects: the statuses assigned to a task, and the waits.\<close>

fun status_writes :: "string \<Rightarrow> effect list \<Rightarrow> TaskStatus list" where
  "status_writes tid [] = []"
| "status_writes tid (StatusSet t s # es) =
     (if t = tid then s # status_writes tid es else status_writes tid es)"
| "status_writes tid (_ # es) = status_writes tid es"

fun waits :: "effect list \<Rightarrow> nat list" where
  "waits [] = []"
| "waits (Slept d # es) = d # waits es"
| "waits (_ # es) = waits es"

text \<open>A process that has just accepted one upload.\<close>

definition fresh_world :: "int \<Rightarrow> Task \<Rightarrow> world" where
  "fresh_world capacity task =
     \<lparr>gpu_manager = GPUResourceManager_init capacity 0.8,
      monitoring_service = MonitoringService_init 1000 500,
      tasks_db = [task_id task \<mapsto> task],
      clock = created_at task,
      effects = []\<rparr>"

text \<open>
  Observations on a world, for stating what the executor does: the retry data of a task
  record, the counters of the monitoring service, the statuses that the executor itself
  assigns (the assignments of a cancel request left out), and the waits.
\<close>

definition retry_view ::
  "Task \<Rightarrow> nat option \<times> nat option \<times> (nat \<times> string) list option \<times> string option" where
  "retry_view task =
     (retry_count task, max_retries task,
      map_option (map (\<lambda>entry. (attempt entry, retry_error entry))) (retry_history task),
      error_message task)"

definition stats :: "world \<Rightarrow> TaskStats" where
  "stats w = task_stats (monitoring_service w)"

definition executor_writes :: "string \<Rightarrow> world \<Rightarrow> TaskStatus list" where
  "executor_writes tid w = filter (\<lambda>s. s \<noteq> Cancelled) (status_writes tid (effects w))"

definition slept :: "world \<Rightarrow> nat list" where
  "slept w = waits (effects w)"

text \<open>
  An attempt that fails with an error the executor retries: the image is valid, and
  either the slot is refused or the renderer reports failure. The validator and the
  renderer catch their own exceptions, so these two are the exceptions that reach the
  handler from a valid image before the status is set to completed.
\<close>

definition fails_retryably :: "GPUResourceManager \<Rightarrow> attempt_env \<Rightarrow> bool" where
  "fails_retryably mgr env \<longleftrightarrow>
     image_valid env \<and> (can_process_task mgr (gpu_probe env) = CanProcess \<longrightarrow> \<not> render_ok env)"

definition failure_exception :: "GPUResourceManager \<Rightarrow> attempt_env \<Rightarrow> py_exception" where
  "failure_exception mgr env =
     (case can_process_task mgr (gpu_probe env) of
        CannotProcess why \<Rightarrow> RuntimeError (slot_error_prefix @ why)
      | CanProcess \<Rightarrow> Exception err_depthflow_failed)"

definition succeeds :: "GPUResourceManager \<Rightarrow> attempt_env \<Rightarrow> bool" where
  "succeeds mgr env \<longleftrightarrow>
     image_valid env \<and> can_process_task mgr (gpu_probe env) = CanProcess \<and> render_ok env"

text \<open>
  The observations gathered: of the task, its retry counter, its retry bound, the
  attempt numbers and errors of its retry history, its error message and its webhook;
  of the world, the manager, the counters of failed, completed and retried tasks, the
  task, the waits and the executor's status assignments.
\<close>

definition task_obs ::
  "Task \<Rightarrow> nat \<times> nat \<times> (nat \<times> string) list \<times> string option \<times> string option" where
  "task_obs task =
     (current_retry_count task, current_max_retries task,
      map (\<lambda>entry. (attempt entry, retry_error entry)) (current_retry_history task),
      error_message task, webhook_url task)"

definition obs ::
  "string \<Rightarrow> world \<Rightarrow>
   GPUResourceManager \<times> int \<times> int \<times> int
   \<times> (nat \<times> nat \<times> (nat \<times> string) list \<times> string option \<times> string option) option
   \<times> nat list \<times> TaskStatus list" where
  "obs tid w =
     (gpu_manager w, failed_tasks (stats w), completed_tasks (stats w), retried_tasks (stats w),
      map_option task_obs (tasks_db w tid), slept w, executor_writes tid w)"

text \<open>The world in which the resubmitted call starts, after an attempt that is retried,
  and after several of them.\<close>

definition after_retry :: "string \<Rightarrow> string option \<Rightarrow> world \<Rightarrow> attempt_env \<Rightarrow> world" where
  "after_retry tid output_format w env =
     backoff_wait tid env (snd (run_attempt tid output_format env (wrapper_enter env w)))"

definition after_retries :: "string \<Rightarrow> string option \<Rightarrow> attempt_env list \<Rightarrow> world \<Rightarrow> world" where
  "after_retries tid output_format envs w = foldl (after_retry tid output_format) w envs"

text \<open>One failure is counted for each recorded error of a task whose id is not empty.\<close>

definition counted :: "string \<Rightarrow> int" where
  "counted tid = (if tid = [] then 0 else 1)"

text \<open>Sample environments: a render that succeeds, one during which a cancel request is
  served, one that fails, and one that fails with a cancel request served during the
  wait that follows.\<close>

definition env_ok :: attempt_env where
  "env_ok =
     \<lparr>t_started = 10, t_finished = 12, image_valid = True, gpu_probe = gpu_idle,
      render_events = [ProgressCallback 50 ''rendering'', ProgressCallback 90 ''rendered''],
      render_ok = True, output_size = Some 4096, cancel_during_backoff = False\<rparr>"

definition env_cancel_mid_render :: attempt_env where
  "env_cancel_mid_render =
     env_ok\<lparr>render_events :=
              [ProgressCallback 50 ''rendering'', CancelArrives, ProgressCallback 90 ''rendered'']\<rparr>"

definition env_render_fails :: attempt_env where
  "env_render_fails = env_ok\<lparr>render_ok := False, output_size := None\<rparr>"

definition env_cancel_in_backoff :: attempt_env where
  "env_cancel_in_backoff = env_render_fails\<lparr>cancel_during_backoff := True\<rparr>"

text \<open>Worlds that differ only by what a cancel request or a progress report writes,
  and by the statuses \<open>ss\<close> that the executor has assigned in between.\<close>

definition advanced :: "string \<Rightarrow> world \<Rightarrow> world \<Rightarrow> TaskStatus list \<Rightarrow> bool" where
  "advanced tid w w' ss \<longleftrightarrow>
     gpu_manager w' = gpu_manager w \<and> monitoring_service w' = monitoring_service w
     \<and> map_option retry_view (tasks_db w' tid) = map_option retry_view (tasks_db w tid)
     \<and> map_option webhook_url (tasks_db w' tid) = map_option webhook_url (tasks_db w tid)
     \<and> slept w' = slept w \<and> executor_writes tid w' = executor_writes tid w @ ss"


text \<open>The world in which the \<^verbatim>\<open>try\<close> block of a call starts: the timer of the decorator
  is running and the start of the task is counted.\<close>

definition started :: "string \<Rightarrow> attempt_env \<Rightarrow> world \<Rightarrow> world" where
  "started tid env w =
     monitor (record_metric (clock (wrapper_enter env w)) ''task_started_count'' 1
                [(''task_id'', tid)])
       (wrapper_enter env w)"

section \<open>Properties\<close>

subsection \<open>The executor, step by step\<close>

lemma record_metric_task_stats:
  "task_stats (record_metric now name v tgs self) = task_stats self"
  by (simp add: record_metric_def Let_def)


lemma status_writes_append [simp]:
  "status_writes tid (xs @ ys) = status_writes tid xs @ status_writes tid ys"
  by (induction tid xs rule: status_writes.induct) simp_all

lemma waits_append [simp]: "waits (xs @ ys) = waits xs @ waits ys"
  by (induction xs rule: waits.induct) simp_all

lemma modify_task_frame [simp]:
  "gpu_manager (modify_task tid f w) = gpu_manager w"
  "monitoring_service (modify_task tid f w) = monitoring_service w"
  "clock (modify_task tid f w) = clock w"
  "effects (modify_task tid f w) = effects w"
  "tasks_db (modify_task tid f w) tid = map_option f (tasks_db w tid)"
  by (simp_all add: modify_task_def split: option.splits)

lemma emit_frame [simp]:
  "gpu_manager (emit e w) = gpu_manager w"
  "monitoring_service (emit e w) = monitoring_service w"
  "clock (emit e w) = clock w"
  "effects (emit e w) = effects w @ [e]"
  "tasks_db (emit e w) = tasks_db w"
  by (simp_all add: emit_def)

lemma monitor_frame [simp]:
  "gpu_manager (monitor f w) = gpu_manager w"
  "monitoring_service (monitor f w) = f (monitoring_service w)"
  "clock (monitor f w) = clock w"
  "effects (monitor f w) = effects w"
  "tasks_db (monitor f w) = tasks_db w"
  by (simp_all add: monitor_def)

lemma put_gpu_manager_frame [simp]:
  "gpu_manager (put_gpu_manager m w) = m"
  "monitoring_service (put_gpu_manager m w) = monitoring_service w"
  "clock (put_gpu_manager m w) = clock w"
  "effects (put_gpu_manager m w) = effects w"
  "tasks_db (put_gpu_manager m w) = tasks_db w"
  by (simp_all add: put_gpu_manager_def)

lemma set_status_frame [simp]:
  "gpu_manager (set_status tid s w) = gpu_manager w"
  "monitoring_service (set_status tid s w) = monitoring_service w"
  "clock (set_status tid s w) = clock w"
  "effects (set_status tid s w) = effects w @ [StatusSet tid s]"
  "tasks_db (set_status tid s w) tid = map_option (\<lambda>task. task\<lparr>status := s\<rparr>) (tasks_db w tid)"
  by (simp_all add: set_status_def)

lemma update_progress_frame [simp]:
  "gpu_manager (update_progress tid p m w) = gpu_manager w"
  "monitoring_service (update_progress tid p m w) = monitoring_service w"
  "clock (update_progress tid p m w) = clock w"
  "effects (update_progress tid p m w) = effects w"
  "tasks_db (update_progress tid p m w) tid
     = map_option (\<lambda>task. task\<lparr>progress := p, message := m, updated_at := clock w\<rparr>)
         (tasks_db w tid)"
  by (simp_all add: update_progress_def)

lemma advanced_refl [simp]: "advanced tid w w []"
  by (simp add: advanced_def)

lemma advanced_trans:
  "advanced tid w w' ss \<Longrightarrow> advanced tid w' w'' ss' \<Longrightarrow> advanced tid w w'' (ss @ ss')"
  by (simp add: advanced_def)

lemma retry_view_simps [simp]:
  "retry_view (task\<lparr>status := s\<rparr>) = retry_view task"
  "retry_view (task\<lparr>message := m\<rparr>) = retry_view task"
  "retry_view (task\<lparr>progress := p\<rparr>) = retry_view task"
  "retry_view (task\<lparr>updated_at := u\<rparr>) = retry_view task"
  "retry_view (task\<lparr>result_path := r\<rparr>) = retry_view task"
  "retry_view (task\<lparr>metadata := md\<rparr>) = retry_view task"
  by (simp_all add: retry_view_def)

lemma serve_cancel_advanced: "advanced tid w (serve_cancel tid w) []"
  by (cases "tasks_db w tid")
    (auto simp: advanced_def serve_cancel_def cancel_task_def slept_def executor_writes_def)

lemma update_progress_advanced: "advanced tid w (update_progress tid p m w) []"
  by (cases "tasks_db w tid") (auto simp: advanced_def slept_def executor_writes_def)

lemma render_step_advanced: "advanced tid w (render_step tid w ev) []"
  by (cases ev) (simp_all add: serve_cancel_advanced update_progress_advanced)

lemma render_advanced: "advanced tid w (foldl (render_step tid) w evs) []"
proof (induction evs arbitrary: w)
  case Nil
  then show ?case by simp
next
  case (Cons ev evs)
  from advanced_trans [OF render_step_advanced Cons [of "render_step tid w ev"]]
  show ?case by simp
qed

lemma guarded_block_result: "fst (guarded_block tid env w) = Inr (render_ok env)"
  by (simp add: guarded_block_def Let_def)

lemma guarded_block_advanced: "advanced tid w (snd (guarded_block tid env w)) []"
proof -
  let ?w2 = "update_progress tid 20 msg_start_gpu
               (modify_task tid (\<lambda>task. task\<lparr>message := msg_start_gpu\<rparr>) w)"
  have a: "advanced tid w ?w2 []"
    by (cases "tasks_db w tid") (auto simp: advanced_def slept_def executor_writes_def)
  have b: "advanced tid ?w2 (foldl (render_step tid) ?w2 (render_events env)) []"
    by (rule render_advanced)
  have "advanced tid w (foldl (render_step tid) ?w2 (render_events env)) []"
    using advanced_trans [OF a b] by simp
  then show ?thesis
    by (simp add: guarded_block_def Let_def advanced_def slept_def executor_writes_def)
qed

lemma slot_increment_decrement [simp]: "slot_decrement (slot_increment m) = m"
  by (simp add: slot_increment_def slot_decrement_def)

lemma try_block_fails:
  assumes "fails_retryably (gpu_manager w) env"
  shows "fst (try_block tid fmt env w) = Inl (failure_exception (gpu_manager w) env)"
    and "advanced tid w (snd (try_block tid fmt env w)) [Processing]"
proof -
  define w4 where "w4 =
     update_progress tid 10 msg_waiting_gpu
       (modify_task tid (\<lambda>task. task\<lparr>message := msg_waiting_gpu\<rparr>)
          (modify_task tid (\<lambda>task. task\<lparr>updated_at := clock w, message := msg_processing_image\<rparr>)
             (set_status tid Processing w)))"
  have w4: "advanced tid w w4 [Processing]"
    by (cases "tasks_db w tid") (auto simp: w4_def advanced_def slept_def executor_writes_def)
  then have g: "gpu_manager w4 = gpu_manager w" by (simp add: advanced_def)
  define entered where "entered =
     emit (Slot GpuCacheCleaned)
       (emit (Slot (SlotAcquired tid (active_tasks (slot_increment (gpu_manager w)))
                     (max_concurrent_tasks (slot_increment (gpu_manager w)))))
          (put_gpu_manager (slot_increment (gpu_manager w)) w4))"
  show "fst (try_block tid fmt env w) = Inl (failure_exception (gpu_manager w) env)"
    using assms g
    by (auto simp: try_block_def Let_def w4_def [symmetric] acquire_gpu_slot_def
        fails_retryably_def failure_exception_def case_prod_beta guarded_block_result
        split: admission.splits)
  show "advanced tid w (snd (try_block tid fmt env w)) [Processing]"
  proof (cases "can_process_task (gpu_manager w) (gpu_probe env)")
    case CanProcess
    have e: "gpu_manager entered = slot_increment (gpu_manager w)"
      "monitoring_service entered = monitoring_service w4"
      "tasks_db entered = tasks_db w4" "slept entered = slept w4"
      "executor_writes tid entered = executor_writes tid w4"
      by (simp_all add: entered_def slept_def executor_writes_def)
    have b: "advanced tid entered (snd (guarded_block tid env entered)) []"
      by (rule guarded_block_advanced)
    have "snd (try_block tid fmt env w) =
        emit (Slot (SlotReleased tid (active_tasks (gpu_manager w)) (max_concurrent_tasks (gpu_manager w))))
          (put_gpu_manager (gpu_manager w) (snd (guarded_block tid env entered)))"
      using assms g CanProcess b e(1)
      by (simp add: try_block_def Let_def w4_def [symmetric] acquire_gpu_slot_def
          fails_retryably_def case_prod_beta guarded_block_result entered_def [symmetric]
          advanced_def)
    then show ?thesis
      using w4 b e by (simp add: advanced_def slept_def executor_writes_def)
  next
    case (CannotProcess why)
    then show ?thesis
      using assms g w4
      by (simp add: try_block_def Let_def w4_def [symmetric] acquire_gpu_slot_def
          fails_retryably_def advanced_def slept_def executor_writes_def)
  qed
qed


lemma refusals_retryable:
  "should_retry_error (slot_error_prefix @ reason_task_limit)"
  "should_retry_error (slot_error_prefix @ reason_gpu_unavailable)"
  "should_retry_error (slot_error_prefix @ reason_gpu_memory)"
  "should_retry_error err_depthflow_failed"
  by code_simp+

lemma invalid_image_fatal: "\<not> should_retry_error kw_invalid_image"
  by code_simp

lemma failure_exception_retryable:
  "should_retry_error (exc_str (failure_exception mgr env))"
  by (auto simp: failure_exception_def can_process_task_def refusals_retryable
      split: admission.splits gpu_memory_report.splits if_splits)

lemma record_error_task_stats:
  "task_stats (record_error now e (Some tid) self)
     = (task_stats self)\<lparr>failed_tasks := failed_tasks (task_stats self) + (if tid = [] then 0 else 1)\<rparr>"
  by (simp add: record_error_def Let_def truthy_def)

lemma record_task_retry_task_stats:
  "task_stats (record_task_retry now tid n self)
     = (task_stats self)\<lparr>retried_tasks := retried_tasks (task_stats self) + 1\<rparr>"
  by (simp add: record_task_retry_def Let_def record_metric_task_stats)

lemma record_task_completed_counters:
  "completed_tasks (task_stats (record_task_completed now tid t self))
     = completed_tasks (task_stats self) + 1"
  "failed_tasks (task_stats (record_task_completed now tid t self)) = failed_tasks (task_stats self)"
  "retried_tasks (task_stats (record_task_completed now tid t self)) = retried_tasks (task_stats self)"
  by (simp_all add: record_task_completed_def Let_def record_metric_task_stats)

lemma except_block_retries:
  assumes task: "tasks_db w tid = Some task"
    and more: "current_retry_count task < current_max_retries task"
    and retryable: "should_retry_error (exc_str e)"
  shows "fst (except_block tid e w) = Resubmit"
    and "gpu_manager (snd (except_block tid e w)) = gpu_manager w"
    and "stats (snd (except_block tid e w))
           = (stats w)\<lparr>failed_tasks := failed_tasks (stats w) + (if tid = [] then 0 else 1),
                       retried_tasks := retried_tasks (stats w) + 1\<rparr>"
    and "\<exists>task'. tasks_db (snd (except_block tid e w)) tid = Some task'
           \<and> status task' = Pending
           \<and> retry_count task' = Some (current_retry_count task + 1)
           \<and> max_retries task' = max_retries task
           \<and> error_message task' = error_message task
           \<and> webhook_url task' = webhook_url task
           \<and> map (\<lambda>entry. (attempt entry, retry_error entry)) (current_retry_history task')
               = map (\<lambda>entry. (attempt entry, retry_error entry)) (current_retry_history task)
                 @ [(current_retry_count task + 1, exc_str e)]"
    and "slept (snd (except_block tid e w)) = slept w @ [retry_delay (current_retry_count task + 1)]"
    and "executor_writes tid (snd (except_block tid e w)) = executor_writes tid w @ [Pending]"
  using assms
  by (simp_all add: except_block_def Let_def stats_def slept_def executor_writes_def
      record_error_task_stats record_task_retry_task_stats current_retry_history_def)

lemma except_block_gives_up:
  assumes task: "tasks_db w tid = Some task"
    and stop: "\<not> (current_retry_count task < current_max_retries task
                  \<and> should_retry_error (exc_str e))"
  shows "fst (except_block tid e w) = Finished"
    and "gpu_manager (snd (except_block tid e w)) = gpu_manager w"
    and "stats (snd (except_block tid e w))
           = (stats w)\<lparr>failed_tasks := failed_tasks (stats w) + (if tid = [] then 0 else 1)\<rparr>"
    and "\<exists>task'. tasks_db (snd (except_block tid e w)) tid = Some task'
           \<and> status task' = Failed
           \<and> retry_count task' = retry_count task
           \<and> max_retries task' = max_retries task
           \<and> retry_history task' = retry_history task
           \<and> webhook_url task' = webhook_url task
           \<and> error_message task' = Some (exc_str e)"
    and "slept (snd (except_block tid e w)) = slept w"
    and "executor_writes tid (snd (except_block tid e w)) = executor_writes tid w @ [Failed]"
proof -
  from stop have c: "(current_retry_count task < current_max_retries task
                      \<and> should_retry_error (exc_str e)) = False"
    by simp
  have run: "except_block tid e w =
      (Finished,
       emit (FilesCleaned tid)
         (monitor (record_metric (clock w) ''task_failed_count'' 1 [(''task_id'', tid)])
            (modify_task tid
               (\<lambda>task. task\<lparr>message := msg_failed, error_message := Some (exc_str e),
                            updated_at := clock w\<rparr>)
               (set_status tid Failed (monitor (record_error (clock w) e (Some tid)) w)))))"
    using task by (simp add: except_block_def Let_def c)
  show "fst (except_block tid e w) = Finished"
    and "gpu_manager (snd (except_block tid e w)) = gpu_manager w"
    and "stats (snd (except_block tid e w))
           = (stats w)\<lparr>failed_tasks := failed_tasks (stats w) + (if tid = [] then 0 else 1)\<rparr>"
    and "\<exists>task'. tasks_db (snd (except_block tid e w)) tid = Some task'
           \<and> status task' = Failed
           \<and> retry_count task' = retry_count task
           \<and> max_retries task' = max_retries task
           \<and> retry_history task' = retry_history task
           \<and> webhook_url task' = webhook_url task
           \<and> error_message task' = Some (exc_str e)"
    and "slept (snd (except_block tid e w)) = slept w"
    and "executor_writes tid (snd (except_block tid e w)) = executor_writes tid w @ [Failed]"
    using task
    by (simp_all add: run stats_def slept_def executor_writes_def
        record_error_task_stats record_metric_task_stats)
qed


lemma try_block_succeeds:
  assumes ok: "succeeds (gpu_manager w) env" and task: "tasks_db w tid = Some task"
  shows "fst (try_block tid fmt env w) = Inr ()"
    and "gpu_manager (snd (try_block tid fmt env w)) = gpu_manager w"
    and "completed_tasks (stats (snd (try_block tid fmt env w))) = completed_tasks (stats w) + 1"
    and "failed_tasks (stats (snd (try_block tid fmt env w))) = failed_tasks (stats w)"
    and "retried_tasks (stats (snd (try_block tid fmt env w))) = retried_tasks (stats w)"
    and "\<exists>task'. tasks_db (snd (try_block tid fmt env w)) tid = Some task'
           \<and> status task' = Completed \<and> retry_view task' = retry_view task
           \<and> webhook_url task' = webhook_url task"
    and "slept (snd (try_block tid fmt env w)) = slept w"
    and "executor_writes tid (snd (try_block tid fmt env w))
           = executor_writes tid w @ [Processing, Completed]"
proof -
  define w4 where "w4 =
     update_progress tid 10 msg_waiting_gpu
       (modify_task tid (\<lambda>task. task\<lparr>message := msg_waiting_gpu\<rparr>)
          (modify_task tid (\<lambda>task. task\<lparr>updated_at := clock w, message := msg_processing_image\<rparr>)
             (set_status tid Processing w)))"
  have w4: "advanced tid w w4 [Processing]"
    by (cases "tasks_db w tid") (auto simp: w4_def advanced_def slept_def executor_writes_def)
  then have g: "gpu_manager w4 = gpu_manager w" by (simp add: advanced_def)
  define entered where "entered =
     emit (Slot GpuCacheCleaned)
       (emit (Slot (SlotAcquired tid (active_tasks (slot_increment (gpu_manager w)))
                     (max_concurrent_tasks (slot_increment (gpu_manager w)))))
          (put_gpu_manager (slot_increment (gpu_manager w)) w4))"
  have e: "gpu_manager entered = slot_increment (gpu_manager w)"
    "monitoring_service entered = monitoring_service w4"
    "tasks_db entered = tasks_db w4" "slept entered = slept w4"
    "executor_writes tid entered = executor_writes tid w4"
    by (simp_all add: entered_def slept_def executor_writes_def)
  have b: "advanced tid entered (snd (guarded_block tid env entered)) []"
    by (rule guarded_block_advanced)
  define w5 where "w5 =
     emit (Slot (SlotReleased tid (active_tasks (gpu_manager w)) (max_concurrent_tasks (gpu_manager w))))
       (put_gpu_manager (gpu_manager w) (snd (guarded_block tid env entered)))"
  have w5: "advanced tid w w5 [Processing]"
    using w4 b e by (simp add: w5_def advanced_def slept_def executor_writes_def)
  define path where
    "path = get_output_path tid (case fmt of None \<Rightarrow> ''mp4'' | Some f \<Rightarrow> f)"
  have run: "try_block tid fmt env w = (Inr (), on_success tid path env w5)"
    using ok g b e(1)
    by (simp add: try_block_def Let_def w4_def [symmetric] acquire_gpu_slot_def
        succeeds_def case_prod_beta guarded_block_result entered_def [symmetric]
        advanced_def w5_def path_def)
  from w5 task obtain task5 where
    task5: "tasks_db w5 tid = Some task5" "retry_view task5 = retry_view task"
      "webhook_url task5 = webhook_url task"
    by (cases "tasks_db w5 tid") (auto simp: advanced_def)
  show "fst (try_block tid fmt env w) = Inr ()" by (simp add: run)
  show "gpu_manager (snd (try_block tid fmt env w)) = gpu_manager w"
    using w5 task5 by (simp add: run on_success_def Let_def advanced_def split: option.splits)
  show "completed_tasks (stats (snd (try_block tid fmt env w))) = completed_tasks (stats w) + 1"
    and "failed_tasks (stats (snd (try_block tid fmt env w))) = failed_tasks (stats w)"
    and "retried_tasks (stats (snd (try_block tid fmt env w))) = retried_tasks (stats w)"
    using w5 task5
    by (simp_all add: run on_success_def Let_def advanced_def stats_def
        record_task_completed_counters split: option.splits)
  show "\<exists>task'. tasks_db (snd (try_block tid fmt env w)) tid = Some task'
           \<and> status task' = Completed \<and> retry_view task' = retry_view task
           \<and> webhook_url task' = webhook_url task"
    using task5 by (simp add: run on_success_def Let_def split: option.splits)
  show "slept (snd (try_block tid fmt env w)) = slept w"
    and "executor_writes tid (snd (try_block tid fmt env w))
           = executor_writes tid w @ [Processing, Completed]"
    using w5 task5
    by (simp_all add: run on_success_def Let_def advanced_def slept_def executor_writes_def
        split: option.splits)
qed

lemma stop_timer_task_stats: "task_stats (snd (stop_timer now name self)) = task_stats self"
  by (simp add: stop_timer_def Let_def record_metric_task_stats split: option.splits)

lemma wrapper_enter_frame [simp]:
  "gpu_manager (wrapper_enter env w) = gpu_manager w"
  "stats (wrapper_enter env w) = stats w"
  "tasks_db (wrapper_enter env w) = tasks_db w"
  "effects (wrapper_enter env w) = effects w"
  by (simp_all add: wrapper_enter_def stats_def start_timer_def)

lemma wrapper_exit_frame [simp]:
  "gpu_manager (wrapper_exit w) = gpu_manager w"
  "stats (wrapper_exit w) = stats w"
  "tasks_db (wrapper_exit w) = tasks_db w"
  "effects (wrapper_exit w) = effects w"
  "slept (wrapper_exit w) = slept w"
  "executor_writes tid (wrapper_exit w) = executor_writes tid w"
  by (simp_all add: wrapper_exit_def stats_def record_metric_task_stats stop_timer_task_stats
      slept_def executor_writes_def)

lemma wrapper_exit_obs [simp]: "obs tid (wrapper_exit w) = obs tid w"
  by (simp add: obs_def)

lemma wrapper_exits_obs [simp]: "obs tid ((wrapper_exit ^^ n) w) = obs tid w"
  by (induction n) simp_all

lemma wrapper_exits_tasks_db [simp]: "tasks_db ((wrapper_exit ^^ n) w) = tasks_db w"
  by (induction n) simp_all

lemma task_obs_retry_view: "retry_view a = retry_view b \<Longrightarrow> webhook_url a = webhook_url b
   \<Longrightarrow> task_obs a = task_obs b"
  by (cases "retry_history a"; cases "retry_history b")
     (auto simp: task_obs_def retry_view_def current_retry_count_def current_max_retries_def
      current_retry_history_def)

lemma advanced_task:
  assumes "advanced tid w w' ss" "tasks_db w tid = Some task"
  obtains task' where "tasks_db w' tid = Some task'" "task_obs task' = task_obs task"
  using assms
  by (cases "tasks_db w' tid") (auto simp: advanced_def intro: task_obs_retry_view)

lemma backoff_wait_advanced: "advanced tid w (backoff_wait tid env w) []"
  by (simp add: backoff_wait_def serve_cancel_advanced)


lemma obs_task:
  assumes "obs tid w = (g, f, c, r, Some t, sl, ew)"
  obtains task where "tasks_db w tid = Some task" "task_obs task = t"
  using assms by (cases "tasks_db w tid") (auto simp: obs_def)

lemma attempt_retried:
  assumes o: "obs tid w = (g, f, c, r, Some (rc, mx, h, em, wh), sl, ew)"
    and fails: "fails_retryably g env" and more: "rc < mx"
  shows "fst (run_attempt tid fmt env (wrapper_enter env w)) = Resubmit"
    and "obs tid (after_retry tid fmt w env)
           = (g, f + counted tid, c, r + 1,
              Some (rc + 1, mx, h @ [(rc + 1, exc_str (failure_exception g env))], em, wh),
              sl @ [retry_delay (rc + 1)], ew @ [Processing, Pending])"
proof -
  from o obtain task where task: "tasks_db w tid = Some task"
    and t: "task_obs task = (rc, mx, h, em, wh)" by (rule obs_task)
  define w1 where "w1 =
     monitor (record_metric (clock (wrapper_enter env w)) ''task_started_count'' 1
                [(''task_id'', tid)]) (wrapper_enter env w)"
  have w1: "gpu_manager w1 = g" "stats w1 = stats w" "tasks_db w1 = tasks_db w"
    "slept w1 = slept w" "executor_writes tid w1 = executor_writes tid w"
    using o by (simp_all add: w1_def obs_def stats_def slept_def executor_writes_def
        record_metric_task_stats wrapper_enter_def start_timer_def)
  define w2 where "w2 = snd (try_block tid fmt env w1)"
  have e: "fst (try_block tid fmt env w1) = Inl (failure_exception g env)"
    and a: "advanced tid w1 w2 [Processing]"
    using try_block_fails [of w1 env tid fmt] fails w1(1) by (simp_all add: w2_def)
  from a task w1(3) obtain task2 where task2: "tasks_db w2 tid = Some task2"
    and t2: "task_obs task2 = (rc, mx, h, em, wh)"
    using t by (metis advanced_task)
  from t2 have rc: "current_retry_count task2 = rc" "current_max_retries task2 = mx"
    by (simp_all add: task_obs_def)
  have run: "run_attempt tid fmt env (wrapper_enter env w)
               = except_block tid (failure_exception g env) w2"
    using e by (auto simp: run_attempt_def Let_def w1_def [symmetric] w2_def
        split: prod.splits sum.splits)
  note ex = except_block_retries [OF task2, of "failure_exception g env"]
  have pre: "current_retry_count task2 < current_max_retries task2"
    "should_retry_error (exc_str (failure_exception g env))"
    using more rc by (simp_all add: failure_exception_retryable)
  show "fst (run_attempt tid fmt env (wrapper_enter env w)) = Resubmit"
    using ex(1) [OF pre] by (simp add: run)
  define w3 where "w3 = snd (except_block tid (failure_exception g env) w2)"
  from ex(4) [OF pre] obtain task3 where task3: "tasks_db w3 tid = Some task3"
    and t3: "task_obs task3
        = (rc + 1, mx, h @ [(rc + 1, exc_str (failure_exception g env))], em, wh)"
    using t2 rc
    by (auto simp: w3_def task_obs_def current_retry_count_def current_max_retries_def)
  have w3: "gpu_manager w3 = g"
    "stats w3 = (stats w)\<lparr>failed_tasks := failed_tasks (stats w) + counted tid,
                            retried_tasks := retried_tasks (stats w) + 1\<rparr>"
    "slept w3 = sl @ [retry_delay (rc + 1)]"
    "executor_writes tid w3 = ew @ [Processing, Pending]"
    using ex(2,3,5,6) [OF pre] a w1 o rc
    by (simp_all add: w3_def advanced_def obs_def stats_def counted_def)
  have b: "advanced tid w3 (backoff_wait tid env w3) []" by (rule backoff_wait_advanced)
  obtain task4 where "tasks_db (backoff_wait tid env w3) tid = Some task4"
    and "task_obs task4 = task_obs task3"
    by (rule advanced_task [OF b task3])
  then show "obs tid (after_retry tid fmt w env)
           = (g, f + counted tid, c, r + 1,
              Some (rc + 1, mx, h @ [(rc + 1, exc_str (failure_exception g env))], em, wh),
              sl @ [retry_delay (rc + 1)], ew @ [Processing, Pending])"
    using b w3 t3 o
    by (simp add: after_retry_def run w3_def [symmetric] obs_def advanced_def stats_def)
qed

lemma process_retried:
  assumes "obs tid w = (g, f, c, r, Some (rc, mx, h, em, wh), sl, ew)"
    and "fails_retryably g env" and "rc < mx"
  shows "process_image_task tid fmt (env # envs) w
           = map_option wrapper_exit (process_image_task tid fmt envs (after_retry tid fmt w env))"
proof -
  from assms(1) obtain task where "tasks_db w tid = Some task" by (rule obs_task)
  then show ?thesis
    using attempt_retried(1) [OF assms, of fmt]
    by (auto simp: Let_def after_retry_def split: prod.splits)
qed


lemma process_gives_up:
  assumes o: "obs tid w = (g, f, c, r, Some (rc, mx, h, em, wh), sl, ew)"
    and fails: "fails_retryably g env" and stop: "\<not> rc < mx"
  shows "\<exists>w'. process_image_task tid fmt (env # envs) w = Some w'
           \<and> obs tid w' = (g, f + counted tid, c, r,
                Some (rc, mx, h, Some (exc_str (failure_exception g env)), wh),
                sl, ew @ [Processing, Failed])
           \<and> map_option status (tasks_db w' tid) = Some Failed"
proof -
  from o obtain task where task: "tasks_db w tid = Some task"
    and t: "task_obs task = (rc, mx, h, em, wh)" by (rule obs_task)
  define w1 where "w1 =
     monitor (record_metric (clock (wrapper_enter env w)) ''task_started_count'' 1
                [(''task_id'', tid)]) (wrapper_enter env w)"
  have w1: "gpu_manager w1 = g" "stats w1 = stats w" "tasks_db w1 = tasks_db w"
    "slept w1 = slept w" "executor_writes tid w1 = executor_writes tid w"
    using o by (simp_all add: w1_def obs_def stats_def slept_def executor_writes_def
        record_metric_task_stats wrapper_enter_def start_timer_def)
  define w2 where "w2 = snd (try_block tid fmt env w1)"
  have e: "fst (try_block tid fmt env w1) = Inl (failure_exception g env)"
    and a: "advanced tid w1 w2 [Processing]"
    using try_block_fails [of w1 env tid fmt] fails w1(1) by (simp_all add: w2_def)
  from a task w1(3) obtain task2 where task2: "tasks_db w2 tid = Some task2"
    and t2: "task_obs task2 = (rc, mx, h, em, wh)"
    using t by (metis advanced_task)
  from t2 have rc: "current_retry_count task2 = rc" "current_max_retries task2 = mx"
    by (simp_all add: task_obs_def)
  have run: "run_attempt tid fmt env (wrapper_enter env w)
               = except_block tid (failure_exception g env) w2"
    using e by (auto simp: run_attempt_def Let_def w1_def [symmetric] w2_def
        split: prod.splits sum.splits)
  have pre: "\<not> (current_retry_count task2 < current_max_retries task2
                \<and> should_retry_error (exc_str (failure_exception g env)))"
    using stop rc by simp
  note ex = except_block_gives_up [OF task2 pre]
  define w3 where "w3 = snd (except_block tid (failure_exception g env) w2)"
  from ex(4) obtain task3 where task3: "tasks_db w3 tid = Some task3"
    and s3: "status task3 = Failed"
    and t3: "task_obs task3 = (rc, mx, h, Some (exc_str (failure_exception g env)), wh)"
    using t2
    by (auto simp: w3_def task_obs_def current_retry_count_def current_max_retries_def
        current_retry_history_def)
  have w3: "gpu_manager w3 = g"
    "stats w3 = (stats w)\<lparr>failed_tasks := failed_tasks (stats w) + counted tid\<rparr>"
    "slept w3 = sl" "executor_writes tid w3 = ew @ [Processing, Failed]"
    using ex(2,3,5,6) a w1 o
    by (simp_all add: w3_def advanced_def obs_def stats_def counted_def)
  have "process_image_task tid fmt (env # envs) w = Some (wrapper_exit w3)"
    using task ex(1) by (auto simp: Let_def run w3_def split: prod.splits)
  moreover have "obs tid (wrapper_exit w3) = (g, f + counted tid, c, r,
                Some (rc, mx, h, Some (exc_str (failure_exception g env)), wh),
                sl, ew @ [Processing, Failed])"
    using w3 task3 t3 o by (simp add: obs_def)
  moreover have "map_option status (tasks_db (wrapper_exit w3) tid) = Some Failed"
    using task3 s3 by simp
  ultimately show ?thesis by blast
qed

lemma process_completes:
  assumes o: "obs tid w = (g, f, c, r, Some (rc, mx, h, em, wh), sl, ew)"
    and ok: "succeeds g env"
  shows "\<exists>w'. process_image_task tid fmt (env # envs) w = Some w'
           \<and> obs tid w' = (g, f, c + 1, r, Some (rc, mx, h, em, wh), sl,
                ew @ [Processing, Completed])
           \<and> map_option status (tasks_db w' tid) = Some Completed"
proof -
  from o obtain task where task: "tasks_db w tid = Some task"
    and t: "task_obs task = (rc, mx, h, em, wh)" by (rule obs_task)
  define w1 where "w1 =
     monitor (record_metric (clock (wrapper_enter env w)) ''task_started_count'' 1
                [(''task_id'', tid)]) (wrapper_enter env w)"
  have w1: "gpu_manager w1 = g" "stats w1 = stats w" "tasks_db w1 = tasks_db w"
    "slept w1 = slept w" "executor_writes tid w1 = executor_writes tid w"
    using o by (simp_all add: w1_def obs_def stats_def slept_def executor_writes_def
        record_metric_task_stats wrapper_enter_def start_timer_def)
  have task1: "tasks_db w1 tid = Some task" using task w1(3) by simp
  have ok1: "succeeds (gpu_manager w1) env" using ok w1(1) by simp
  note tb = try_block_succeeds [OF ok1 task1, of fmt]
  define w2 where "w2 = snd (try_block tid fmt env w1)"
  have run: "run_attempt tid fmt env (wrapper_enter env w) = (Finished, w2)"
    using tb(1) by (auto simp: run_attempt_def Let_def w1_def [symmetric] w2_def
        split: prod.splits sum.splits)
  from tb(6) obtain task2 where task2: "tasks_db w2 tid = Some task2"
    and s2: "status task2 = Completed" and t2: "task_obs task2 = (rc, mx, h, em, wh)"
    using t by (auto simp: w2_def dest: task_obs_retry_view)
  have "process_image_task tid fmt (env # envs) w = Some (wrapper_exit w2)"
    using task by (simp add: Let_def run)
  moreover have "obs tid (wrapper_exit w2) = (g, f, c + 1, r, Some (rc, mx, h, em, wh), sl,
                ew @ [Processing, Completed])"
    using tb(2,3,4,5,7,8) w1 task2 t2 o by (simp add: obs_def w2_def)
  moreover have "map_option status (tasks_db (wrapper_exit w2) tid) = Some Completed"
    using task2 s2 by simp
  ultimately show ?thesis by blast
qed


lemma failing_run:
  assumes "obs tid w = (g, f, c, r, Some (rc, mx, h, em, wh), sl, ew)"
    and "list_all (fails_retryably g) fails" and "rc + length fails \<le> mx"
  shows "process_image_task tid fmt (fails @ rest) w
           = map_option (wrapper_exit ^^ length fails)
               (process_image_task tid fmt rest (after_retries tid fmt fails w))
         \<and> obs tid (after_retries tid fmt fails w)
           = (g, f + counted tid * int (length fails), c, r + int (length fails),
              Some (rc + length fails, mx,
                    h @ zip [rc + 1 ..< rc + length fails + 1]
                          (map (\<lambda>env. exc_str (failure_exception g env)) fails),
                    em, wh),
              sl @ map retry_delay [rc + 1 ..< rc + length fails + 1],
              ew @ concat (replicate (length fails) [Processing, Pending]))"
  using assms
proof (induction fails arbitrary: w f r rc h sl ew)
  case Nil
  then show ?case by (simp add: after_retries_def option.map_ident)
next
  case (Cons env fails)
  let ?w = "after_retry tid fmt w env"
  from Cons.prems have fails: "fails_retryably g env" and more: "rc < mx" by simp_all
  note step = process_retried [OF Cons.prems(1) fails more, of fmt]
  note o = attempt_retried(2) [OF Cons.prems(1) fails more, of fmt]
  from Cons.prems have rest: "list_all (fails_retryably g) fails"
    and bound: "rc + 1 + length fails \<le> mx" by simp_all
  note ih = Cons.IH [OF o rest bound]
  have upt: "[rc + 1 ..< rc + length (env # fails) + 1]
               = (rc + 1) # [rc + 1 + 1 ..< rc + 1 + length fails + 1]"
  proof -
    have "rc + 1 < rc + length (env # fails) + 1" by simp
    from upt_conv_Cons [OF this] show ?thesis by (simp add: add.commute add.left_commute)
  qed
  have run: "process_image_task tid fmt ((env # fails) @ rest) w
           = map_option (wrapper_exit ^^ length (env # fails))
               (process_image_task tid fmt rest (after_retries tid fmt (env # fails) w))"
    using step [of "fails @ rest"] ih
    by (simp add: after_retries_def option.map_comp comp_def funpow_swap1)
  have "obs tid (after_retries tid fmt (env # fails) w)
           = (g, f + counted tid * int (length (env # fails)), c, r + int (length (env # fails)),
              Some (rc + length (env # fails), mx,
                    h @ zip [rc + 1 ..< rc + length (env # fails) + 1]
                          (map (\<lambda>env. exc_str (failure_exception g env)) (env # fails)),
                    em, wh),
              sl @ map retry_delay [rc + 1 ..< rc + length (env # fails) + 1],
              ew @ concat (replicate (length (env # fails)) [Processing, Pending]))"
    unfolding upt using ih
    by (simp add: after_retries_def algebra_simps)
  with run show ?case by blast
qed


lemma obs_of_task:
  assumes "tasks_db w tid = Some task"
  shows "obs tid w = (gpu_manager w, failed_tasks (stats w), completed_tasks (stats w),
                      retried_tasks (stats w),
                      Some (current_retry_count task, current_max_retries task,
                            map (\<lambda>entry. (attempt entry, retry_error entry))
                              (current_retry_history task),
                            error_message task, webhook_url task),
                      slept w, executor_writes tid w)"
  using assms by (simp add: obs_def task_obs_def)

lemma retry_delay_values:
  "retry_delay 1 = 60" "retry_delay 2 = 120" "retry_delay 3 = 240"
  "retry_delay 4 = 300" "retry_delay 5 = 300"
  by (simp_all add: retry_delay_def)


lemma env_render_fails_retryably: "fails_retryably mgr env_render_fails"
  by (simp add: fails_retryably_def env_render_fails_def env_ok_def)

lemma fresh_world_task:
  "tasks_db (fresh_world c (new_task tid p wh now)) tid = Some (new_task tid p wh now)"
  "gpu_manager (fresh_world c task) = GPUResourceManager_init c 0.8"
  "slept (fresh_world c task) = []" "executor_writes tid' (fresh_world c task) = []"
  "stats (fresh_world c task) = \<lparr>total_tasks = 0, completed_tasks = 0, failed_tasks = 0,
                     retried_tasks = 0, average_processing_time = 0\<rparr>"
  by (simp_all add: fresh_world_def new_task_def slept_def executor_writes_def stats_def
      MonitoringService_init_def)

lemma new_task_fresh:
  "current_max_retries (new_task tid p wh now) = 3"
  "current_retry_count (new_task tid p wh now) = 0"
  "current_retry_history (new_task tid p wh now) = []"
  by (simp_all add: new_task_def current_max_retries_def current_retry_count_def
      current_retry_history_def)


lemma process_finishes:
  assumes "tasks_db w tid = Some task"
    and "fst (try_block tid fmt env (started tid env w)) = Inr ()"
  shows "process_image_task tid fmt (env # envs) w
           = Some (wrapper_exit (snd (try_block tid fmt env (started tid env w))))"
  using assms
  by (auto simp: Let_def run_attempt_def started_def split: prod.splits sum.splits)

lemma started_frame [simp]:
  "gpu_manager (started tid env w) = gpu_manager w"
  "tasks_db (started tid env w) = tasks_db w"
  "effects (started tid env w) = effects w"
  "clock (started tid env w) = t_started env"
  by (simp_all add: started_def wrapper_enter_def)

lemma env_ok_succeeds: "succeeds (GPUResourceManager_init 3 t) (env_ok\<lparr>render_events := evs\<rparr>) \<longleftrightarrow> 1 / 10 < t"
  by (simp add: succeeds_def env_ok_def can_process_task_def
      check_gpu_memory_def gpu_idle_def GPUResourceManager_init_def)

lemma env_ok_succeeds_fresh: "succeeds (gpu_manager (fresh_world 3 task)) env_ok"
  by (simp add: succeeds_def env_ok_def can_process_task_def check_gpu_memory_def
      gpu_idle_def fresh_world_def GPUResourceManager_init_def)

subsection \<open>Rounding to a float\<close>

text \<open>
  Facts about \<open>round_to_double\<close>: rounding is monotone around every float, so a
  comparison of a rounded quotient with a float whose last bit is even is a comparison
  of the exact quotient with the midpoint above that float. The literal 0.5 denotes
  \<open>1 / 2\<close>; the literal 0.2 denotes \<open>7205759403792794 / 2 ^ 55\<close>, which is a little
  above a fifth.
\<close>

lemma round_half_even_ge: "of_int N \<le> y \<Longrightarrow> N \<le> round_half_even y"
proof -
  assume "of_int N \<le> y"
  then have "N \<le> \<lfloor>y\<rfloor>" by (simp add: le_floor_iff)
  then show ?thesis by (auto simp: round_half_even_def Let_def)
qed

lemma round_half_even_le: "y \<le> of_int N \<Longrightarrow> round_half_even y \<le> N"
proof -
  assume a: "y \<le> of_int N"
  show ?thesis
  proof (cases "y = of_int N")
    case True
    then show ?thesis by (simp add: round_half_even_def)
  next
    case False
    with a have "y < of_int N" by simp
    then have "\<lfloor>y\<rfloor> < N" by (simp add: floor_less_iff)
    then show ?thesis by (auto simp: round_half_even_def Let_def)
  qed
qed

lemma round_half_even_gt_even:
  assumes "even M"
  shows "M < round_half_even y \<longleftrightarrow> of_int M + 1 / 2 < y"
proof
  assume gt: "of_int M + 1 / 2 < y"
  then have "of_int M \<le> y" by simp
  then have f: "M \<le> \<lfloor>y\<rfloor>" by (simp add: le_floor_iff)
  show "M < round_half_even y"
  proof (cases "\<lfloor>y\<rfloor> = M")
    case True
    with gt have "y - of_int \<lfloor>y\<rfloor> > 1 / 2" by simp
    with True show ?thesis by (simp add: round_half_even_def Let_def)
  next
    case False
    with f have "M < \<lfloor>y\<rfloor>" by simp
    then show ?thesis by (auto simp: round_half_even_def Let_def)
  qed
next
  assume r: "M < round_half_even y"
  show "of_int M + 1 / 2 < y"
  proof (rule ccontr)
    assume "\<not> of_int M + 1 / 2 < y"
    then have le: "y \<le> of_int M + 1 / 2" by simp
    then have "y < of_int (M + 1)" by simp
    then have "\<lfloor>y\<rfloor> < M + 1" by (simp only: floor_less_iff)
    then have f: "\<lfloor>y\<rfloor> \<le> M" by simp
    show False
    proof (cases "\<lfloor>y\<rfloor> = M")
      case True
      with le have "y - of_int \<lfloor>y\<rfloor> \<le> 1 / 2" by simp
      with True assms r show False by (auto simp: round_half_even_def Let_def split: if_splits)
    next
      case False
      with f have "\<lfloor>y\<rfloor> + 1 \<le> M" by simp
      with r show False by (auto simp: round_half_even_def Let_def split: if_splits)
    qed
  qed
qed

lemma double_exponent_in_binade:
  assumes "- 1022 \<le> e" "2 powr of_int e \<le> x" "x < 2 powr (of_int e + 1)"
  shows "double_exponent x = e"
proof -
  have pos: "0 < x" using assms(2) by (smt (verit) powr_gt_zero)
  then have "\<lfloor>log 2 x\<rfloor> = e"
    using assms(2,3) by (simp add: floor_log_eq_powr_iff)
  with pos assms(1) show ?thesis by (simp add: double_exponent_def)
qed

lemma double_exponent_below:
  assumes "- 1022 \<le> e - 1" "0 < x" "x < 2 powr of_int e"
  shows "double_exponent x \<le> e - 1" and "x < 2 powr (of_int (double_exponent x) + 1)"
proof -
  have "log 2 x < of_int e" using assms(2,3) by (simp add: log_less_iff)
  then have "\<lfloor>log 2 x\<rfloor> < e" by (simp only: floor_less_iff)
  then have f: "\<lfloor>log 2 x\<rfloor> \<le> e - 1" by simp
  with assms(1,2) show "double_exponent x \<le> e - 1" by (simp add: double_exponent_def)
  have "x < 2 powr (of_int \<lfloor>log 2 x\<rfloor> + 1)"
    using assms(2) floor_log_eq_powr_iff [of x 2 "\<lfloor>log 2 x\<rfloor>"] by simp
  also have "\<dots> \<le> 2 powr (of_int (double_exponent x) + 1)"
    using assms(2) by (simp add: double_exponent_def)
  finally show "x < 2 powr (of_int (double_exponent x) + 1)" .
qed

lemma double_exponent_above:
  assumes "- 1022 \<le> e" "2 powr of_int e \<le> x"
  shows "e \<le> double_exponent x" and "2 powr of_int (double_exponent x) \<le> x"
proof -
  have pos: "0 < x" using assms(2) by (smt (verit) powr_gt_zero)
  have "of_int e \<le> log 2 x" using assms(2) pos by (simp add: le_log_iff)
  then have f: "e \<le> \<lfloor>log 2 x\<rfloor>" by (simp add: le_floor_iff)
  with assms(1) pos show "e \<le> double_exponent x" by (simp add: double_exponent_def)
  from f assms(1) pos have "double_exponent x = \<lfloor>log 2 x\<rfloor>" by (simp add: double_exponent_def)
  then show "2 powr of_int (double_exponent x) \<le> x"
    using pos floor_log_eq_powr_iff [of x 2 "\<lfloor>log 2 x\<rfloor>"] by simp
qed

lemma powr_shift: "(2::real) powr (of_int k - 52) * 2 ^ 53 = 2 powr (of_int k + 1)"
proof -
  have "(2::real) powr (of_int k - 52) * 2 powr 53 = (2::real) powr (of_int k - 52 + 53)"
    by (simp only: powr_add)
  then show ?thesis by (simp add: powr_numeral add.commute)
qed

lemma powr_shift52: "(2::real) powr (of_int k - 52) * 2 ^ 52 = 2 powr (of_int k)"
proof -
  have "(2::real) powr (of_int k - 52) * 2 powr 52 = (2::real) powr (of_int k - 52 + 52)"
    by (simp only: powr_add)
  then show ?thesis by (simp add: powr_numeral)
qed

lemma round_to_double_nonpos: "x \<le> 0 \<Longrightarrow> round_to_double x \<le> 0"
proof -
  assume "x \<le> 0"
  have u: "0 < double_ulp x" by (simp add: double_ulp_def)
  with \<open>x \<le> 0\<close> have "x / double_ulp x \<le> of_int 0" by (simp add: divide_nonpos_pos)
  then have "round_half_even (x / double_ulp x) \<le> 0" by (rule round_half_even_le)
  with u show ?thesis
    by (simp add: round_to_double_def mult_nonpos_nonneg)
qed

lemma round_to_double_nonneg: "0 \<le> x \<Longrightarrow> 0 \<le> round_to_double x"
proof -
  assume "0 \<le> x"
  have u: "0 < double_ulp x" by (simp add: double_ulp_def)
  with \<open>0 \<le> x\<close> have "of_int 0 \<le> x / double_ulp x" by simp
  then have "0 \<le> round_half_even (x / double_ulp x)" by (rule round_half_even_ge)
  with u show ?thesis by (simp add: round_to_double_def)
qed

lemma round_to_double_below:
  assumes "- 1022 \<le> e - 1" "0 < x" "x < 2 powr of_int e"
  shows "round_to_double x \<le> 2 powr of_int e"
proof -
  let ?k = "double_exponent x"
  have k: "?k \<le> e - 1" and xk: "x < 2 powr (of_int ?k + 1)"
    using double_exponent_below [OF assms] by simp_all
  have u: "0 < double_ulp x" by (simp add: double_ulp_def)
  have "x / double_ulp x < 2 ^ 53"
    using xk u powr_shift [of ?k] by (simp add: double_ulp_def pos_divide_less_eq mult.commute)
  then have "x / double_ulp x \<le> of_int (2 ^ 53)" by simp
  then have "round_half_even (x / double_ulp x) \<le> 2 ^ 53" by (rule round_half_even_le)
  then have "of_int (round_half_even (x / double_ulp x)) \<le> (2 ^ 53 :: real)"
    by (metis of_int_le_iff of_int_numeral of_int_power)
  then have "round_to_double x \<le> 2 ^ 53 * double_ulp x"
    using u assms(2) by (simp add: round_to_double_def)
  also have "\<dots> = 2 powr (of_int ?k + 1)"
    using powr_shift [of ?k] by (simp add: double_ulp_def mult.commute)
  also have "\<dots> \<le> 2 powr of_int e" using k by simp
  finally show ?thesis .
qed

lemma round_to_double_above:
  assumes "- 1022 \<le> e" "2 powr of_int e \<le> x"
  shows "2 powr of_int e \<le> round_to_double x"
proof -
  let ?k = "double_exponent x"
  have k: "e \<le> ?k" and xk: "2 powr of_int ?k \<le> x"
    using double_exponent_above [OF assms] by simp_all
  have pos: "0 < x" using assms(2) by (smt (verit) powr_gt_zero)
  have u: "0 < double_ulp x" by (simp add: double_ulp_def)
  have "2 ^ 52 \<le> x / double_ulp x"
    using xk u powr_shift52 [of ?k] by (simp add: double_ulp_def pos_le_divide_eq mult.commute)
  then have "of_int (2 ^ 52) \<le> x / double_ulp x" by simp
  then have "2 ^ 52 \<le> round_half_even (x / double_ulp x)" by (rule round_half_even_ge)
  then have "(2 ^ 52 :: real) \<le> of_int (round_half_even (x / double_ulp x))"
    by (metis of_int_le_iff of_int_numeral of_int_power)
  then have "2 ^ 52 * double_ulp x \<le> round_to_double x"
    using u pos by (simp add: round_to_double_def)
  moreover have "2 ^ 52 * double_ulp x = 2 powr of_int ?k"
    using powr_shift52 [of ?k] by (simp add: double_ulp_def mult.commute)
  moreover have "2 powr of_int e \<le> (2::real) powr of_int ?k" using k by simp
  ultimately show ?thesis by linarith
qed


lemma round_to_double_gt_iff:
  assumes e: "- 1022 \<le> e - 1" and M: "2 ^ 52 \<le> M" "M < 2 ^ 53" "even M"
  shows "of_int M * 2 powr (of_int e - 52) < round_to_double x
           \<longleftrightarrow> (of_int M + 1 / 2) * 2 powr (of_int e - 52) < x"
proof -
  let ?u = "(2::real) powr (of_int e - 52)"
  let ?d = "of_int M * ?u"
  let ?mid = "(of_int M + 1 / 2) * ?u"
  have u: "0 < ?u" by simp
  have M52: "(2 ^ 52 :: real) \<le> of_int M"
    using M(1) by (metis of_int_le_iff of_int_numeral of_int_power)
  have "M + 1 \<le> 2 ^ 53" using M(2) by simp
  then have "(of_int (M + 1) :: real) \<le> of_int (2 ^ 53)" by (simp only: of_int_le_iff)
  then have M53: "of_int M + 1 \<le> (2 ^ 53 :: real)" by simp
  have lo: "2 powr of_int e \<le> ?d"
    using powr_shift52 [of e] M52 u by (metis mult.commute mult_le_cancel_left_pos)
  have dm: "?d < ?mid" using u by (simp add: mult_strict_right_mono)
  have hi: "?mid < 2 powr (of_int e + 1)"
  proof -
    have "of_int M + 1 / 2 < (2 ^ 53 :: real)" using M53 by linarith
    then have "?mid < 2 ^ 53 * ?u" using u by (rule mult_strict_right_mono)
    also have "\<dots> = 2 powr (of_int e + 1)"
      using powr_shift [of e] by (simp only: mult.commute)
    finally show ?thesis .
  qed
  have dpos: "0 < ?d" using lo by (smt (verit) powr_gt_zero)
  consider "x \<le> 0" | "0 < x" "x < 2 powr of_int e"
    | "2 powr of_int e \<le> x" "x < 2 powr (of_int e + 1)" | "2 powr (of_int e + 1) \<le> x"
    by linarith
  then show ?thesis
  proof cases
    case 1
    then have "round_to_double x \<le> 0" by (rule round_to_double_nonpos)
    with 1 dpos dm show ?thesis by linarith
  next
    case 2
    from round_to_double_below [OF e 2] have "round_to_double x \<le> 2 powr of_int e" .
    with 2 lo dm show ?thesis by linarith
  next
    case 3
    have k: "double_exponent x = e"
      using double_exponent_in_binade [OF _ 3] e by simp
    have x0: "x \<noteq> 0" using 3(1) by (smt (verit) powr_gt_zero)
    have "?d < round_to_double x \<longleftrightarrow> of_int M < (of_int (round_half_even (x / ?u)) :: real)"
      using u x0 by (simp add: round_to_double_def double_ulp_def k)
    also have "\<dots> \<longleftrightarrow> M < round_half_even (x / ?u)" by (simp only: of_int_less_iff)
    also have "\<dots> \<longleftrightarrow> of_int M + 1 / 2 < x / ?u" by (rule round_half_even_gt_even [OF M(3)])
    also have "\<dots> \<longleftrightarrow> ?mid < x" using u by (simp add: pos_less_divide_eq)
    finally show ?thesis .
  next
    case 4
    have e1: "- 1022 \<le> e + 1" using e by simp
    from 4 have "2 powr of_int (e + 1) \<le> x" by (simp add: add.commute)
    from round_to_double_above [OF e1 this]
    have "2 powr (of_int e + 1) \<le> round_to_double x" by (simp add: add.commute)
    with 4 hi dm show ?thesis by linarith
  qed
qed

lemma float_literal_half: "float_literal 0.5 = 1 / 2"
proof -
  have b: "2 powr of_int (- 1) \<le> (1 / 2 :: real)" "(1 / 2 :: real) < 2 powr (of_int (- 1) + 1)"
    by (simp_all add: powr_minus)
  have k: "double_exponent (1 / 2) = - 1"
    using double_exponent_in_binade [OF _ b] by simp
  have u: "double_ulp (1 / 2) = 1 / 2 ^ 53"
    by (simp add: double_ulp_def k powr_minus powr_numeral flip: minus_add_distrib)
  show ?thesis
    by (simp add: float_literal_def round_to_double_def u round_half_even_def)
qed


lemma float_literal_fifth: "float_literal 0.2 = 7205759403792794 / 2 ^ 55"
proof -
  have b: "2 powr of_int (- 3) \<le> (1 / 5 :: real)" "(1 / 5 :: real) < 2 powr (of_int (- 3) + 1)"
    by (simp_all add: powr_minus)
  have k: "double_exponent (1 / 5) = - 3"
    using double_exponent_in_binade [OF _ b] by simp
  have u: "double_ulp (1 / 5) = 1 / 2 ^ 55"
    by (simp add: double_ulp_def k powr_minus powr_numeral flip: minus_add_distrib)
  have f: "\<lfloor>36028797018963968 / 5 :: real\<rfloor> = 7205759403792793" by simp
  show ?thesis
    by (simp add: float_literal_def round_to_double_def u round_half_even_def f)
qed

lemma gt_half_iff:
  "float_literal 0.5 < round_to_double x \<longleftrightarrow> 1 / 2 + 1 / 2 ^ 54 < x"
proof -
  have main: "(of_int (2 ^ 52) * 2 powr (of_int (- 1) - 52) < round_to_double x)
      = ((of_int (2 ^ 52) + 1 / 2) * 2 powr (of_int (- 1) - 52) < x)"
    by (rule round_to_double_gt_iff) simp_all
  have u: "(2::real) powr (of_int (- 1) - 52) = 1 / 2 ^ 53"
    by (simp add: powr_minus powr_numeral flip: minus_add_distrib)
  have h: "float_literal 0.5 = of_int (2 ^ 52) * 2 powr (of_int (- 1) - 52)"
    unfolding u float_literal_half by simp
  have m: "(of_int (2 ^ 52) + 1 / 2) * 2 powr (of_int (- 1) - 52) = (1 / 2 + 1 / 2 ^ 54 :: real)"
    unfolding u by simp
  show ?thesis using main by (simp only: h m)
qed

lemma gt_fifth_iff:
  "float_literal 0.2 < round_to_double x \<longleftrightarrow> 14411518807585589 / 2 ^ 56 < x"
proof -
  have main: "(of_int 7205759403792794 * 2 powr (of_int (- 3) - 52) < round_to_double x)
      = ((of_int 7205759403792794 + 1 / 2) * 2 powr (of_int (- 3) - 52) < x)"
    by (rule round_to_double_gt_iff) simp_all
  have u: "(2::real) powr (of_int (- 3) - 52) = 1 / 2 ^ 55"
    by (simp add: powr_minus powr_numeral flip: minus_add_distrib)
  have h: "float_literal 0.2 = of_int 7205759403792794 * 2 powr (of_int (- 3) - 52)"
    unfolding u float_literal_fifth by simp
  have m: "(of_int 7205759403792794 + 1 / 2) * 2 powr (of_int (- 3) - 52) = (14411518807585589 / 2 ^ 56 :: real)"
    unfolding u by simp
  show ?thesis using main by (simp only: h m)
qed

lemma int_ratio_step:
  fixes p q :: int
  assumes q: "0 < q" and k: "0 < k" and lt: "1 / real_of_int k < real_of_int p / real_of_int q"
  shows "1 / real_of_int k + 1 / (real_of_int k * real_of_int q) \<le> real_of_int p / real_of_int q"
proof -
  have q0: "0 < real_of_int q" and k0: "0 < real_of_int k" using q k by simp_all
  from lt q0 k0 have "real_of_int q < real_of_int k * real_of_int p"
    by (simp add: field_simps)
  then have "real_of_int q < real_of_int (k * p)" by simp
  then have "q < k * p" by (simp only: of_int_less_iff)
  then have "q + 1 \<le> k * p" by simp
  then have "real_of_int (q + 1) \<le> real_of_int (k * p)" by (simp only: of_int_le_iff)
  then have le: "real_of_int q + 1 \<le> real_of_int k * real_of_int p" by simp
  have "1 / real_of_int k + 1 / (real_of_int k * real_of_int q)
      = (real_of_int q + 1) / (real_of_int k * real_of_int q)"
    using q0 k0 by (simp add: field_simps)
  also have "\<dots> \<le> (real_of_int k * real_of_int p) / (real_of_int k * real_of_int q)"
    using le q0 k0 by (intro divide_right_mono) simp_all
  also have "\<dots> = real_of_int p / real_of_int q" using k0 by simp
  finally show ?thesis .
qed

lemma ratio_gt_half:
  fixes p q :: int
  assumes "0 < q" "q \<le> 10 ^ 15"
  shows "1 / 2 + 1 / 2 ^ 54 < real_of_int p / real_of_int q \<longleftrightarrow> 1 / 2 < real_of_int p / real_of_int q"
proof
  assume a: "1 / 2 + 1 / 2 ^ 54 < real_of_int p / real_of_int q"
  have "(0::real) < 1 / 2 ^ 54" by simp
  with a show "1 / 2 < real_of_int p / real_of_int q" by linarith
next
  assume "1 / 2 < real_of_int p / real_of_int q"
  then have "1 / real_of_int 2 < real_of_int p / real_of_int q" by simp
  from int_ratio_step [OF assms(1) _ this]
  have st: "1 / 2 + 1 / (2 * real_of_int q) \<le> real_of_int p / real_of_int q" by simp
  have "real_of_int q \<le> real_of_int (10 ^ 15)" using assms(2) by (simp only: of_int_le_iff)
  then have qr: "real_of_int q \<le> 10 ^ 15" by simp
  have q0: "0 < real_of_int q" using assms(1) by simp
  have "2 * real_of_int q < 2 ^ 54" using qr by simp
  then have "1 / 2 ^ 54 < 1 / (2 * real_of_int q)"
    using q0 by (intro divide_strict_left_mono) simp_all
  with st show "1 / 2 + 1 / 2 ^ 54 < real_of_int p / real_of_int q" by linarith
qed

lemma ratio_gt_fifth:
  fixes p q :: int
  assumes "0 < q" "q \<le> 10 ^ 15"
  shows "14411518807585589 / 2 ^ 56 < real_of_int p / real_of_int q \<longleftrightarrow> 1 / 5 < real_of_int p / real_of_int q"
proof
  assume a: "14411518807585589 / 2 ^ 56 < real_of_int p / real_of_int q"
  have "(1 / 5 :: real) < 14411518807585589 / 2 ^ 56" by simp
  with a show "1 / 5 < real_of_int p / real_of_int q" by linarith
next
  assume "1 / 5 < real_of_int p / real_of_int q"
  then have "1 / real_of_int 5 < real_of_int p / real_of_int q" by simp
  from int_ratio_step [OF assms(1) _ this]
  have st: "1 / 5 + 1 / (5 * real_of_int q) \<le> real_of_int p / real_of_int q" by simp
  have "real_of_int q \<le> real_of_int (10 ^ 15)" using assms(2) by (simp only: of_int_le_iff)
  then have qr: "real_of_int q \<le> 10 ^ 15" by simp
  have q0: "0 < real_of_int q" using assms(1) by simp
  have e: "(14411518807585589 / 2 ^ 56 :: real) = 1 / 5 + 9 / (5 * 2 ^ 56)" by simp
  have "9 * real_of_int q < 2 ^ 56" using qr by simp
  then have "9 / 2 ^ 56 < 1 / real_of_int q"
    using q0 by (simp add: field_simps)
  then have "(9 / 2 ^ 56) / 5 < (1 / real_of_int q) / 5"
    by (intro divide_strict_right_mono) simp_all
  then have "9 / (5 * 2 ^ 56) < 1 / (5 * real_of_int q)" by simp
  with st e show "14411518807585589 / 2 ^ 56 < real_of_int p / real_of_int q" by linarith
qed

lemma quotient_in_range:
  fixes p q :: int
  assumes "0 \<le> p" "p < 2 ^ 1023" "0 < q"
  shows "\<bar>round_to_double (real_of_int p / real_of_int q)\<bar> < 2 ^ 1024"
proof -
  let ?x = "real_of_int p / real_of_int q"
  have "real_of_int p < real_of_int (2 ^ 1023)" using assms(2) by (simp only: of_int_less_iff)
  then have pr: "real_of_int p < 2 ^ 1023" by simp
  have q1: "1 \<le> real_of_int q" using assms(3) by simp
  have p0: "0 \<le> real_of_int p" using assms(1) by simp
  have "?x \<le> real_of_int p / 1"
    using q1 p0 by (intro divide_left_mono) simp_all
  with pr have xlt: "?x < 2 ^ 1023" by simp
  have x0: "0 \<le> ?x" using assms by simp
  then have r0: "0 \<le> round_to_double ?x" by (rule round_to_double_nonneg)
  have "round_to_double ?x \<le> 2 powr of_int 1023"
  proof (cases "?x = 0")
    case True
    then show ?thesis by (simp add: round_to_double_def)
  next
    case False
    with x0 have pos: "0 < ?x" by (simp only: less_le) simp
    from xlt have "?x < 2 powr of_int 1023" by (simp add: powr_numeral)
    from round_to_double_below [OF _ pos this] show ?thesis by simp
  qed
  then have "round_to_double ?x \<le> 2 ^ 1023" by (simp add: powr_numeral)
  moreover have "(2 ^ 1023 :: real) < 2 ^ 1024" by simp
  ultimately show ?thesis using r0 by simp
qed

subsection \<open>C1: the lease counter and the capacity\<close>

lemma int_card_remove:
  "finite A \<Longrightarrow> x \<in> A \<Longrightarrow> int (card A - Suc 0) = int (card A) - 1"
  by (cases "card A") auto

lemma holders_upd_Holding: "pc s t \<noteq> Holding \<Longrightarrow>
   holders (s\<lparr>shared := m, pc := (pc s)(t := Holding)\<rparr>) = insert t (holders s)"
  by (auto simp: holders_def)

lemma holders_upd_Released:
   "holders (s\<lparr>shared := m, pc := (pc s)(t := Released)\<rparr>) = holders s - {t}"
  by (auto simp: holders_def)

lemma holders_upd_other: "pc s t \<noteq> Holding \<Longrightarrow> x \<noteq> Holding \<Longrightarrow>
   holders (s\<lparr>pc := (pc s)(t := x)\<rparr>) = holders s"
  by (auto simp: holders_def)

lemma slot_step_within:
  assumes "within_capacity s"
  shows "within_capacity (slot_step step s)"
proof -
  obtain t probe where step: "step = (t, probe)" by (cases step)
  show ?thesis
  proof (cases "pc s t")
    case Idle
    then have "t \<notin> holders s" by (simp add: holders_def)
    with Idle show ?thesis using assms
      by (auto simp: step slot_step_def within_capacity_def
          counter_counts_holders_def holders_upd_other holders_upd_Holding
          slot_increment_def can_process_task_def
          split: admission.splits if_splits)
  next
    case Holding
    then have "t \<in> holders s" by (simp add: holders_def)
    moreover from this assms
    have "int (card (holders s) - Suc 0) = int (card (holders s)) - 1"
      by (intro int_card_remove [of _ t])
        (simp_all add: within_capacity_def counter_counts_holders_def)
    ultimately show ?thesis using Holding assms
      by (simp add: step slot_step_def within_capacity_def
          counter_counts_holders_def holders_upd_Released slot_decrement_def)
  qed (use assms in \<open>simp_all add: step slot_step_def\<close>)
qed

lemma slot_step_capacity:
  "max_concurrent_tasks (shared (slot_step step s)) = max_concurrent_tasks (shared s)"
  by (cases step) (simp add: slot_step_def slot_increment_def slot_decrement_def
      split: slot_pc.splits admission.splits)

lemma run_schedule_within:
  "within_capacity s \<Longrightarrow>
     within_capacity (run_schedule schedule s)
     \<and> max_concurrent_tasks (shared (run_schedule schedule s)) = max_concurrent_tasks (shared s)"
  unfolding run_schedule_def
proof (induction schedule arbitrary: s)
  case Nil
  then show ?case by simp
next
  case (Cons step rest)
  with slot_step_within slot_step_capacity show ?case by simp
qed

lemma init_within: "0 \<le> c \<Longrightarrow> within_capacity (arbitration_init c thr)"
  by (simp add: within_capacity_def counter_counts_holders_def holders_def arbitration_init_def
      GPUResourceManager_init_def)

text \<open>
  C1. For a manager configured with a capacity \<open>c\<close> that is not negative, after every
  schedule of acquisitions and releases by any number of tasks the counter
  \<open>active_tasks\<close> lies between 0 and \<open>c\<close>, and the capacity is still \<open>c\<close>: the admission
  check and the increment that follows it never take the counter above the capacity.
\<close>

theorem active_tasks_within_capacity:
  assumes "0 \<le> c"
  shows "0 \<le> active_tasks (shared (run_schedule schedule (arbitration_init c thr)))
       \<and> active_tasks (shared (run_schedule schedule (arbitration_init c thr))) \<le> c
       \<and> max_concurrent_tasks (shared (run_schedule schedule (arbitration_init c thr))) = c"
proof -
  from run_schedule_within [OF init_within [OF assms], of schedule thr]
  show ?thesis
    by (simp add: within_capacity_def counter_counts_holders_def)
       (simp add: arbitration_init_def GPUResourceManager_init_def)
qed

text \<open>
  An instance, with capacity 1: a first task acquires, a second is refused while the
  first holds its lease, and the counter stands at 1.
\<close>

theorem active_tasks_within_capacity_witness:
  "active_tasks (shared (run_schedule [(0, gpu_idle), (1, gpu_idle)] (arbitration_init 1 0.8)))
     = 1
   \<and> pc (run_schedule [(0, gpu_idle), (1, gpu_idle)] (arbitration_init 1 0.8)) 1 = Refused
   \<and> 0 \<le> active_tasks
            (shared (run_schedule [(0, gpu_idle), (1, gpu_idle)] (arbitration_init 1 0.8)))
   \<and> active_tasks (shared (run_schedule [(0, gpu_idle), (1, gpu_idle)] (arbitration_init 1 0.8)))
       \<le> 1"
proof -
  have "(0::int) \<le> 1" by simp
  from active_tasks_within_capacity
    [OF this, where schedule = "[(0, gpu_idle), (1, gpu_idle)]" and thr = "0.8"]
  show ?thesis
    by (simp add: run_schedule_def slot_step_def arbitration_init_def
        GPUResourceManager_init_def can_process_task_def check_gpu_memory_def gpu_idle_def
        slot_increment_def)
qed

subsection \<open>C2: terminal statuses\<close>

text \<open>
  The part of C2 that holds: the cancel request refuses a record whose status is
  completed, failed or cancelled, and leaves it as it is.
\<close>

lemma cancel_task_terminal:
  assumes "tasks_db w tid = Some task" and "status task \<in> {Completed, Failed, Cancelled}"
  shows "cancel_task tid w = Inl (HTTPException 400 ''task_not_cancellable'')"
  using assms by (auto simp: cancel_task_def)

text \<open>
  C2 fails on the code. A task is being rendered when a cancel request for it is served:
  the request finds the status "processing", sets it to "cancelled" and answers 200.
  The render then returns success, and the executor, which never reads the status,
  sets it to "completed".
\<close>

theorem cancelled_task_overwritten:
  "map_option (\<lambda>w. (effects w, map_option status (tasks_db w ''t1'')))
     (process_image_task ''t1'' None [env_cancel_mid_render]
        (fresh_world 3 (new_task ''t1'' ''in.png'' None 0)))
   = Some ([StatusSet ''t1'' Processing, Slot (SlotAcquired ''t1'' 1 3), Slot GpuCacheCleaned,
            StatusSet ''t1'' Cancelled, Responded 200, Slot (SlotReleased ''t1'' 0 3),
            StatusSet ''t1'' Completed],
           Some Completed)"
proof -
  let ?env = env_cancel_mid_render
  let ?w0 = "fresh_world 3 (new_task ''t1'' ''in.png'' None 0)"
  let ?w1 = "started ''t1'' ?env ?w0"
  have t0: "tasks_db ?w0 ''t1'' = Some (new_task ''t1'' ''in.png'' None 0)"
    by (rule fresh_world_task(1))
  have w1: "effects ?w1 = []" "gpu_manager ?w1 = GPUResourceManager_init 3 0.8"
    "tasks_db ?w1 ''t1'' = Some (new_task ''t1'' ''in.png'' None 0)"
    by (simp_all add: fresh_world_def new_task_def)
  have ok: "succeeds (gpu_manager ?w1) ?env"
    by (simp add: env_cancel_mid_render_def fresh_world_task(2) env_ok_succeeds)
  have eff: "effects (snd (try_block ''t1'' None ?env ?w1)) =
           [StatusSet ''t1'' Processing, Slot (SlotAcquired ''t1'' 1 3), Slot GpuCacheCleaned,
            StatusSet ''t1'' Cancelled, Responded 200, Slot (SlotReleased ''t1'' 0 3),
            StatusSet ''t1'' Completed]"
    using ok w1
    by (simp add: try_block_def acquire_gpu_slot_def guarded_block_def on_success_def
        serve_cancel_def cancel_task_def case_prod_beta Let_def succeeds_def
        env_cancel_mid_render_def env_ok_def new_task_def truthy_def
        GPUResourceManager_init_def slot_increment_def slot_decrement_def)
  have tb: "fst (try_block ''t1'' None ?env ?w1) = Inr ()"
    by (rule try_block_succeeds(1) [OF ok w1(3)])
  from try_block_succeeds(6) [OF ok w1(3), of None]
  have st: "map_option status (tasks_db (snd (try_block ''t1'' None ?env ?w1)) ''t1'')
              = Some Completed"
    by auto
  from process_finishes [OF t0 tb, of "[]"] show ?thesis
    by (simp del: process_image_task.simps add: eff st)
qed

subsection \<open>C3: four retryable failures\<close>

text \<open>
  C3. A task with a retry bound of 3, no retry made yet and an empty retry history
  meets four attempts in a row that fail with a retryable error. The executor returns
  after the fourth attempt, whatever further environments there are: it has assigned
  the status "failed" once, as its last assignment, after three rounds of "processing"
  and "pending"; the retry history has three entries, numbered 1 to 3; the error message
  is the text of the fourth error; and it has waited three times.
\<close>

theorem four_failures_fail_once:
  assumes task: "tasks_db w tid = Some task"
    and fresh: "current_max_retries task = 3" "current_retry_count task = 0"
      "current_retry_history task = []"
    and fails: "fails_retryably (gpu_manager w) e1" "fails_retryably (gpu_manager w) e2"
      "fails_retryably (gpu_manager w) e3" "fails_retryably (gpu_manager w) e4"
  shows "\<exists>w' task'.
           process_image_task tid fmt (e1 # e2 # e3 # e4 # rest) w = Some w'
           \<and> tasks_db w' tid = Some task'
           \<and> status task' = Failed
           \<and> executor_writes tid w'
               = executor_writes tid w
                 @ [Processing, Pending, Processing, Pending, Processing, Pending,
                    Processing, Failed]
           \<and> length (current_retry_history task') = 3
           \<and> map attempt (current_retry_history task') = [1, 2, 3]
           \<and> error_message task' = Some (exc_str (failure_exception (gpu_manager w) e4))
           \<and> slept w' = slept w @ [60, 120, 240]"
proof -
  let ?g = "gpu_manager w"
  note o = obs_of_task [OF task, unfolded fresh, simplified]
  have all: "list_all (fails_retryably ?g) [e1, e2, e3]" using fails by simp
  from failing_run [OF o all, of fmt "e4 # rest"]
  have run3: "process_image_task tid fmt (e1 # e2 # e3 # e4 # rest) w
           = map_option (wrapper_exit ^^ 3)
               (process_image_task tid fmt (e4 # rest) (after_retries tid fmt [e1, e2, e3] w))"
    and o3: "obs tid (after_retries tid fmt [e1, e2, e3] w)
           = (?g, failed_tasks (stats w) + counted tid * 3, completed_tasks (stats w),
              retried_tasks (stats w) + 3,
              Some (3, 3,
                    [(1, exc_str (failure_exception ?g e1)), (2, exc_str (failure_exception ?g e2)),
                     (3, exc_str (failure_exception ?g e3))],
                    error_message task, webhook_url task),
              slept w @ [60, 120, 240],
              executor_writes tid w @ [Processing, Pending, Processing, Pending, Processing, Pending])"
    by (simp_all del: process_image_task.simps add: retry_delay_def numeral_3_eq_3)
  from process_gives_up [OF o3 fails(4), of fmt rest]
  obtain w4 where w4: "process_image_task tid fmt (e4 # rest) (after_retries tid fmt [e1, e2, e3] w)
                        = Some w4"
    and o4: "obs tid w4 = (?g, failed_tasks (stats w) + counted tid * 3 + counted tid,
                completed_tasks (stats w), retried_tasks (stats w) + 3,
                Some (3, 3,
                    [(1, exc_str (failure_exception ?g e1)), (2, exc_str (failure_exception ?g e2)),
                     (3, exc_str (failure_exception ?g e3))],
                    Some (exc_str (failure_exception ?g e4)), webhook_url task),
                slept w @ [60, 120, 240],
                (executor_writes tid w @ [Processing, Pending, Processing, Pending, Processing, Pending])
                  @ [Processing, Failed])"
    and s4: "map_option status (tasks_db w4 tid) = Some Failed"
    by (auto simp del: process_image_task.simps)
  let ?w' = "(wrapper_exit ^^ 3) w4"
  from s4 obtain task' where task': "tasks_db w4 tid = Some task'" and st: "status task' = Failed"
    by auto
  from o4 task' have t: "task_obs task' = (3, 3,
                    [(1, exc_str (failure_exception ?g e1)), (2, exc_str (failure_exception ?g e2)),
                     (3, exc_str (failure_exception ?g e3))],
                    Some (exc_str (failure_exception ?g e4)), webhook_url task)"
    by (simp add: obs_def)
  have h: "map (\<lambda>entry. (attempt entry, retry_error entry)) (current_retry_history task')
             = [(1, exc_str (failure_exception ?g e1)), (2, exc_str (failure_exception ?g e2)),
                (3, exc_str (failure_exception ?g e3))]"
    using t by (simp add: task_obs_def)
  have len: "length (current_retry_history task') = 3"
    using arg_cong [OF h, of length] by simp
  have att: "map attempt (current_retry_history task') = [1, 2, 3]"
    using arg_cong [OF h, of "map fst"] by (simp add: comp_def)
  have "process_image_task tid fmt (e1 # e2 # e3 # e4 # rest) w = Some ?w'"
    by (simp del: process_image_task.simps add: run3 w4)
  moreover have "tasks_db ?w' tid = Some task'" using task' by simp
  moreover have "executor_writes tid ?w' = executor_writes tid w
                 @ [Processing, Pending, Processing, Pending, Processing, Pending,
                    Processing, Failed]"
    and "slept ?w' = slept w @ [60, 120, 240]"
    using o4 wrapper_exits_obs [of tid 3 w4] by (simp_all add: obs_def)
  moreover have "error_message task' = Some (exc_str (failure_exception ?g e4))"
    using t by (simp add: task_obs_def)
  ultimately show ?thesis using st len att
    by (intro exI [of _ ?w'] exI [of _ task'] conjI)
qed

text \<open>An instance: an upload whose render fails four times, with a fifth environment
  left unused.\<close>

theorem four_failures_fail_once_witness:
  "\<exists>w' task'.
     process_image_task ''t1'' None
       [env_render_fails, env_render_fails, env_render_fails, env_render_fails, env_ok]
       (fresh_world 3 (new_task ''t1'' ''in.png'' None 0)) = Some w'
     \<and> tasks_db w' ''t1'' = Some task'
     \<and> status task' = Failed
     \<and> executor_writes ''t1'' w'
         = [Processing, Pending, Processing, Pending, Processing, Pending, Processing, Failed]
     \<and> length (current_retry_history task') = 3
     \<and> error_message task' = Some err_depthflow_failed
     \<and> slept w' = [60, 120, 240]"
proof -
  let ?w = "fresh_world 3 (new_task ''t1'' ''in.png'' None 0)"
  have f: "fails_retryably (gpu_manager ?w) env_render_fails"
    by (rule env_render_fails_retryably)
  have m: "exc_str (failure_exception (gpu_manager ?w) env_render_fails) = err_depthflow_failed"
    by (simp add: fresh_world_task failure_exception_def env_render_fails_def env_ok_def
        can_process_task_def check_gpu_memory_def gpu_idle_def GPUResourceManager_init_def)
  have t: "tasks_db ?w ''t1'' = Some (new_task ''t1'' ''in.png'' None 0)"
    by (rule fresh_world_task(1))
  from four_failures_fail_once
    [OF t new_task_fresh f f f f, where fmt = None and rest = "[env_ok]"]
  obtain w' task' where
    "process_image_task ''t1'' None
       (env_render_fails # env_render_fails # env_render_fails # env_render_fails # [env_ok]) ?w
       = Some w'"
    "tasks_db w' ''t1'' = Some task'" "status task' = Failed"
    "executor_writes ''t1'' w' = executor_writes ''t1'' ?w
       @ [Processing, Pending, Processing, Pending, Processing, Pending, Processing, Failed]"
    "length (current_retry_history task') = 3"
    "error_message task'
       = Some (exc_str (failure_exception (gpu_manager ?w) env_render_fails))"
    "slept w' = slept ?w @ [60, 120, 240]"
    by blast
  then show ?thesis
    by (intro exI [of _ w'] exI [of _ task'] conjI)
       (simp_all only: m fresh_world_task(3,4) append_Nil)
qed

subsection \<open>C4: the retry classifier\<close>

text \<open>
  C4, as the code has it. For every message \<open>m\<close>, \<^const>\<open>should_retry_error\<close> answers
  "fatal" (\<open>False\<close>) exactly when the lower-cased message contains one of the six
  keywords of \<^const>\<open>non_retryable_errors\<close> (three Chinese phrases and the three
  identifiers written with underscores), and "retryable" (\<open>True\<close>) for every other
  message, whether or not a keyword of \<^const>\<open>retryable_errors\<close> occurs in it. Being a
  function of the message alone, the verdict is the same for the same message.
\<close>

theorem should_retry_error_iff_no_fatal_keyword:
  "should_retry_error m \<longleftrightarrow>
     (\<forall>k \<in> set non_retryable_errors. \<not> str_contains k (lower m))"
  by (simp add: should_retry_error_def list_ex_iff)

text \<open>
  An instance: upper-case letters in the message do not hide the keyword
  \<open>file_too_large\<close>, and the message is fatal.
\<close>

theorem should_retry_error_iff_no_fatal_keyword_witness:
  "\<not> should_retry_error ''Upload rejected: FILE_TOO_LARGE (12 MB)'' \<and>
   ''file_too_large'' \<in> set non_retryable_errors \<and>
   str_contains ''file_too_large'' (lower ''Upload rejected: FILE_TOO_LARGE (12 MB)'')"
proof -
  have k: "''file_too_large'' \<in> set non_retryable_errors"
    by (simp add: non_retryable_errors_def)
  have c: "str_contains ''file_too_large'' (lower ''Upload rejected: FILE_TOO_LARGE (12 MB)'')"
    by code_simp
  from k c should_retry_error_iff_no_fatal_keyword
    [of "''Upload rejected: FILE_TOO_LARGE (12 MB)''"]
  show ?thesis by blast
qed

text \<open>
  C4 as the specification words it fails: the message "invalid image file" contains the
  first of the specification's fatal phrases, and the code classifies it as retryable
  (its keyword for that case is the Chinese phrase \<^const>\<open>kw_invalid_image\<close>).
\<close>

theorem should_retry_error_spec_phrase_counterexample:
  "spec_is_fatal ''invalid image file'' \<and> should_retry_error ''invalid image file''"
  by code_simp

subsection \<open>C5: the backoff delays\<close>

text \<open>
  C5. When the handler decides to retry, the incremented retry counter is \<open>n\<close> (at least
  1) and the executor waits \<open>min (60 * 2 ^ (n - 1)) 300\<close> seconds before it resubmits. For
  \<open>n\<close> from 1 to 5 these are 60, 120, 240, 300, 300, and a task whose retry bound allows
  five retries and whose first five attempts fail waits exactly these times, in this
  order, before its sixth attempt succeeds.
\<close>

theorem backoff_delay_sequence:
  "(tasks_db w tid = Some task \<and> current_retry_count task < current_max_retries task
      \<and> should_retry_error (exc_str e)
    \<longrightarrow> fst (except_block tid e w) = Resubmit
        \<and> slept (snd (except_block tid e w))
            = slept w @ [min (60 * 2 ^ (current_retry_count task + 1 - 1)) 300])
   \<and> map retry_delay [1, 2, 3, 4, 5] = [60, 120, 240, 300, 300]
   \<and> (tasks_db w tid = Some task \<and> current_retry_count task = 0
        \<and> 5 \<le> current_max_retries task
        \<and> list_all (fails_retryably (gpu_manager w)) [e1, e2, e3, e4, e5]
        \<and> succeeds (gpu_manager w) e6
      \<longrightarrow> (\<exists>w'. process_image_task tid fmt ([e1, e2, e3, e4, e5, e6] @ rest) w = Some w'
                \<and> slept w' = slept w @ [60, 120, 240, 300, 300]
                \<and> map_option status (tasks_db w' tid) = Some Completed))"
proof (intro conjI impI)
  assume a: "tasks_db w tid = Some task \<and> current_retry_count task < current_max_retries task
      \<and> should_retry_error (exc_str e)"
  then show "fst (except_block tid e w) = Resubmit"
    using except_block_retries(1) by blast
  from a show "slept (snd (except_block tid e w))
            = slept w @ [min (60 * 2 ^ (current_retry_count task + 1 - 1)) 300]"
    using except_block_retries(5) [of w tid task e] by (simp add: retry_delay_def)
next
  show "map retry_delay [1, 2, 3, 4, 5] = [60, 120, 240, 300, 300]"
    by (simp add: retry_delay_def)
next
  assume a: "tasks_db w tid = Some task \<and> current_retry_count task = 0
        \<and> 5 \<le> current_max_retries task
        \<and> list_all (fails_retryably (gpu_manager w)) [e1, e2, e3, e4, e5]
        \<and> succeeds (gpu_manager w) e6"
  let ?g = "gpu_manager w"
  let ?fails = "[e1, e2, e3, e4, e5]"
  from a have task: "tasks_db w tid = Some task" and rc: "current_retry_count task = 0"
    and all: "list_all (fails_retryably ?g) ?fails" and ok: "succeeds ?g e6"
    and bound: "0 + length ?fails \<le> current_max_retries task"
    by simp_all
  note o = obs_of_task [OF task, unfolded rc]
  note run = failing_run [OF o all bound, of fmt "e6 # rest"]
  define w5 where "w5 = after_retries tid fmt ?fails w"
  from run have r5: "process_image_task tid fmt (?fails @ e6 # rest) w
                  = map_option (wrapper_exit ^^ length ?fails)
                      (process_image_task tid fmt (e6 # rest) w5)"
    and o5: "obs tid w5 = (?g, failed_tasks (stats w) + counted tid * int (length ?fails),
               completed_tasks (stats w), retried_tasks (stats w) + int (length ?fails),
               Some (0 + length ?fails, current_max_retries task,
                     map (\<lambda>entry. (attempt entry, retry_error entry)) (current_retry_history task)
                     @ zip [0 + 1 ..< 0 + length ?fails + 1]
                         (map (\<lambda>env. exc_str (failure_exception ?g env)) ?fails),
                     error_message task, webhook_url task),
               slept w @ map retry_delay [0 + 1 ..< 0 + length ?fails + 1],
               executor_writes tid w @ concat (replicate (length ?fails) [Processing, Pending]))"
    unfolding w5_def by blast+
  from process_completes [OF o5 ok, of fmt rest] obtain w6 where
    w6: "process_image_task tid fmt (e6 # rest) w5 = Some w6"
    and s6: "slept w6 = slept w @ map retry_delay [0 + 1 ..< 0 + length ?fails + 1]"
    and st: "map_option status (tasks_db w6 tid) = Some Completed"
    by (auto simp del: process_image_task.simps simp: obs_def)
  have d: "map retry_delay [0 + 1 ..< 0 + length ?fails + 1] = [60, 120, 240, 300, 300]"
    by (simp add: retry_delay_def upt_rec)
  let ?w' = "(wrapper_exit ^^ length ?fails) w6"
  have "process_image_task tid fmt ([e1, e2, e3, e4, e5, e6] @ rest) w = Some ?w'"
    using r5 w6 by (simp del: process_image_task.simps)
  moreover have "slept ?w' = slept w @ [60, 120, 240, 300, 300]"
    using wrapper_exits_obs [of tid "length ?fails" w6] s6 d by (simp add: obs_def)
  moreover have "map_option status (tasks_db ?w' tid) = Some Completed"
    using st by (simp only: wrapper_exits_tasks_db)
  ultimately show "\<exists>w'. process_image_task tid fmt ([e1, e2, e3, e4, e5, e6] @ rest) w = Some w'
                \<and> slept w' = slept w @ [60, 120, 240, 300, 300]
                \<and> map_option status (tasks_db w' tid) = Some Completed"
    by (intro exI [of _ ?w'] conjI)
qed

text \<open>An instance: a task with a retry bound of 5 whose render fails five times and
  then succeeds.\<close>

theorem backoff_delay_sequence_witness:
  "\<exists>w'. process_image_task ''t1'' None
          [env_render_fails, env_render_fails, env_render_fails, env_render_fails,
           env_render_fails, env_ok]
          (fresh_world 3 ((new_task ''t1'' ''in.png'' None 0)\<lparr>max_retries := Some 5\<rparr>))
          = Some w'
        \<and> slept w' = [60, 120, 240, 300, 300]
        \<and> map_option status (tasks_db w' ''t1'') = Some Completed"
proof -
  let ?task = "(new_task ''t1'' ''in.png'' None 0)\<lparr>max_retries := Some 5\<rparr>"
  let ?w = "fresh_world 3 ?task"
  have pre: "tasks_db ?w ''t1'' = Some ?task \<and> current_retry_count ?task = 0
        \<and> 5 \<le> current_max_retries ?task
        \<and> list_all (fails_retryably (gpu_manager ?w))
              [env_render_fails, env_render_fails, env_render_fails, env_render_fails,
               env_render_fails]
        \<and> succeeds (gpu_manager ?w) env_ok"
    by (simp add: env_render_fails_retryably env_ok_succeeds_fresh)
       (simp add: fresh_world_def new_task_def current_retry_count_def current_max_retries_def)
  from backoff_delay_sequence
    [where w = ?w and tid = "''t1''" and task = ?task
       and ?e1.0 = env_render_fails and ?e2.0 = env_render_fails and ?e3.0 = env_render_fails
       and ?e4.0 = env_render_fails and ?e5.0 = env_render_fails and ?e6.0 = env_ok
       and fmt = None and rest = "[]", THEN conjunct2, THEN conjunct2, rule_format, OF pre]
  show ?thesis
    by (simp del: process_image_task.simps add: fresh_world_task(3))
qed

subsection \<open>C6: acquire and release are matched\<close>

text \<open>
  C6. Whatever the guarded block does, to the manager as well (other tasks may acquire
  and release while it runs): when the acquisition is admitted, the block starts with
  the counter one above its value at the acquisition, and when the block is left, by a
  normal return or by an exception alike, the counter is one below the value at which
  the block left it, with the outcome of the block passed on; the guard logs its
  acquisition before the block and its release after it, and writes nothing else. When
  the acquisition is refused, \<^verbatim>\<open>RuntimeError\<close> is raised with the reason, the block
  does not run and the manager is as before: nothing is decremented.
\<close>

theorem guard_releases_exactly_once:
  "case can_process_task (manager s) probe of
     CanProcess \<Rightarrow>
       (let entered =
              s\<lparr>manager := (manager s)\<lparr>active_tasks := active_tasks (manager s) + 1\<rparr>,
                slot_log := slot_log s
                  @ [SlotAcquired tid (active_tasks (manager s) + 1)
                       (max_concurrent_tasks (manager s)),
                     GpuCacheCleaned]\<rparr>;
            left = snd (body entered)
        in with_gpu_slot tid probe body s
             = (fst (body entered),
                left\<lparr>manager := (manager left)\<lparr>active_tasks := active_tasks (manager left) - 1\<rparr>,
                     slot_log := slot_log left
                       @ [SlotReleased tid (active_tasks (manager left) - 1)
                            (max_concurrent_tasks (manager left))]\<rparr>))
   | CannotProcess why \<Rightarrow>
       with_gpu_slot tid probe body s
         = (Inl (RuntimeError (slot_error_prefix @ why)),
            s\<lparr>slot_log := slot_log s @ [SlotRefused tid (slot_error_prefix @ why)]\<rparr>)"
  by (simp add: with_gpu_slot_def acquire_gpu_slot_def Let_def case_prod_beta
      arbiter_put_def arbiter_emit_def slot_increment_def slot_decrement_def
      split: admission.splits)

text \<open>
  Instances. A block that raises, and during which another task takes a lease: the
  guard starts at 0, the block runs at 1 and leaves the counter at 2, and the guard ends
  at 1 and passes the exception on. A guard refused at full capacity: the counter stays
  at 1.
\<close>

theorem guard_releases_exactly_once_witness:
  "with_gpu_slot ''t1'' gpu_idle
       (\<lambda>s. (Inl (Exception ''render crashed'') :: py_exception + unit,
             s\<lparr>manager := slot_increment (manager s)\<rparr>))
       (arbiter_with 3 0)
     = (Inl (Exception ''render crashed''),
        \<lparr>manager = (GPUResourceManager_init 3 0.8)\<lparr>active_tasks := 1\<rparr>,
         slot_log = [SlotAcquired ''t1'' 1 3, GpuCacheCleaned, SlotReleased ''t1'' 1 3]\<rparr>)
   \<and> with_gpu_slot ''t2'' gpu_idle
       (\<lambda>s. (Inr () :: py_exception + unit, s)) (arbiter_with 1 1)
     = (Inl (RuntimeError (slot_error_prefix @ reason_task_limit)),
        (arbiter_with 1 1)
          \<lparr>slot_log := [SlotRefused ''t2'' (slot_error_prefix @ reason_task_limit)]\<rparr>)"
proof -
  let ?raise = "\<lambda>s :: arbiter. (Inl (Exception ''render crashed'') :: py_exception + unit,
                                s\<lparr>manager := slot_increment (manager s)\<rparr>)"
  let ?skip = "\<lambda>s :: arbiter. (Inr () :: py_exception + unit, s)"
  have admitted: "can_process_task (manager (arbiter_with 3 0)) gpu_idle = CanProcess"
    by (simp add: can_process_task_def check_gpu_memory_def arbiter_with_def
        GPUResourceManager_init_def gpu_idle_def)
  have refused: "can_process_task (manager (arbiter_with 1 1)) gpu_idle
                   = CannotProcess reason_task_limit"
    by (simp add: can_process_task_def arbiter_with_def GPUResourceManager_init_def)
  have a: "with_gpu_slot ''t1'' gpu_idle ?raise (arbiter_with 3 0)
     = (Inl (Exception ''render crashed''),
        \<lparr>manager = (GPUResourceManager_init 3 0.8)\<lparr>active_tasks := 1\<rparr>,
         slot_log = [SlotAcquired ''t1'' 1 3, GpuCacheCleaned, SlotReleased ''t1'' 1 3]\<rparr>)"
    using guard_releases_exactly_once
        [where body = ?raise and s = "arbiter_with 3 0" and probe = gpu_idle
           and tid = "''t1''"] admitted
    by (simp add: Let_def arbiter_with_def GPUResourceManager_init_def slot_increment_def)
  have b: "with_gpu_slot ''t2'' gpu_idle ?skip (arbiter_with 1 1)
     = (Inl (RuntimeError (slot_error_prefix @ reason_task_limit)),
        (arbiter_with 1 1)
          \<lparr>slot_log := [SlotRefused ''t2'' (slot_error_prefix @ reason_task_limit)]\<rparr>)"
    using guard_releases_exactly_once
        [where body = ?skip and s = "arbiter_with 1 1" and probe = gpu_idle
           and tid = "''t2''"] refused
    by (simp add: arbiter_with_def)
  from a b show ?thesis by simp
qed

subsection \<open>C7: the health tag\<close>

text \<open>
  The health tag in terms of the exact ratio of the counters. For counters that do not
  overflow the quotient, the float quotient is above the float 0.5 exactly when the
  ratio is above \<open>1 / 2 + 1 / 2 ^ 54\<close>, and above the float 0.2 exactly when the ratio is
  above \<open>14411518807585589 / 2 ^ 56\<close>.
\<close>

lemma calculate_system_health_float:
  assumes "0 \<le> failed_tasks (task_stats self)" and "failed_tasks (task_stats self) < 2 ^ 1023"
    and "0 < total_tasks (task_stats self)"
  shows "calculate_system_health self
       = Inr (if 1 / 2 + 1 / 2 ^ 54
                   < real_of_int (failed_tasks (task_stats self))
                       / real_of_int (total_tasks (task_stats self))
              then ''critical''
              else if 14411518807585589 / 2 ^ 56
                   < real_of_int (failed_tasks (task_stats self))
                       / real_of_int (total_tasks (task_stats self))
              then ''warning''
              else ''healthy'')"
proof -
  have r: "\<not> 2 ^ 1024 \<le> \<bar>round_to_double (real_of_int (failed_tasks (task_stats self))
                       / real_of_int (total_tasks (task_stats self)))\<bar>"
    using quotient_in_range [OF assms] by (simp only: not_le)
  have n: "total_tasks (task_stats self) \<noteq> 0" using assms(3) by simp
  show ?thesis
    unfolding calculate_system_health_def int_truediv_def Let_def
    by (simp only: n r if_False sum.case gt_half_iff gt_fifth_iff)
qed

text \<open>
  With at most \<open>10 ^ 15\<close> tasks no ratio of two counters lies between a float bound and
  the midpoint above it, and the tag follows the exact ratio.
\<close>

lemma calculate_system_health_ratio:
  assumes "0 \<le> failed_tasks (task_stats self)" and "failed_tasks (task_stats self) \<le> 10 ^ 15"
    and "0 < total_tasks (task_stats self)" and "total_tasks (task_stats self) \<le> 10 ^ 15"
  shows "calculate_system_health self
       = Inr (if 1 / 2 < real_of_int (failed_tasks (task_stats self))
                           / real_of_int (total_tasks (task_stats self))
              then ''critical''
              else if 1 / 5 < real_of_int (failed_tasks (task_stats self))
                           / real_of_int (total_tasks (task_stats self))
              then ''warning''
              else ''healthy'')"
proof -
  have "(10 ^ 15 :: int) < 2 ^ 1023" by simp
  with assms(2) have "failed_tasks (task_stats self) < 2 ^ 1023" by linarith
  from calculate_system_health_float [OF assms(1) this assms(3)] show ?thesis
    by (simp only: ratio_gt_half [OF assms(3,4)] ratio_gt_fifth [OF assms(3,4)])
qed

text \<open>
  C7, as the code has it. The tag is "unknown" when the count of all tasks is zero.
  Otherwise, for counters between 0 and \<open>10 ^ 15\<close>, it follows the failure ratio
  \<open>failed / total\<close> with the bounds on the other side: a ratio of at most 0.2 is
  "healthy", a ratio above 0.2 and at most 0.5 is "warning", a ratio above 0.5 is
  "critical". So exactly 0.2 is healthy and exactly 0.5 is a warning.
\<close>

theorem calculate_system_health_thresholds:
  "(total_tasks (task_stats self) = 0 \<longrightarrow> calculate_system_health self = Inr ''unknown'')
   \<and> (0 < total_tasks (task_stats self) \<and> total_tasks (task_stats self) \<le> 10 ^ 15
        \<and> 0 \<le> failed_tasks (task_stats self) \<and> failed_tasks (task_stats self) \<le> 10 ^ 15 \<longrightarrow>
        (let ratio = real_of_int (failed_tasks (task_stats self))
                       / real_of_int (total_tasks (task_stats self))
         in (calculate_system_health self = Inr ''healthy'' \<longleftrightarrow> ratio \<le> 0.2)
            \<and> (calculate_system_health self = Inr ''warning'' \<longleftrightarrow> 0.2 < ratio \<and> ratio \<le> 0.5)
            \<and> (calculate_system_health self = Inr ''critical'' \<longleftrightarrow> 0.5 < ratio)))"
proof (intro conjI impI)
  assume "total_tasks (task_stats self) = 0"
  then show "calculate_system_health self = Inr ''unknown''"
    by (simp add: calculate_system_health_def)
next
  assume a: "0 < total_tasks (task_stats self) \<and> total_tasks (task_stats self) \<le> 10 ^ 15
        \<and> 0 \<le> failed_tasks (task_stats self) \<and> failed_tasks (task_stats self) \<le> 10 ^ 15"
  then have h: "calculate_system_health self
       = Inr (if 1 / 2 < real_of_int (failed_tasks (task_stats self))
                           / real_of_int (total_tasks (task_stats self))
              then ''critical''
              else if 1 / 5 < real_of_int (failed_tasks (task_stats self))
                           / real_of_int (total_tasks (task_stats self))
              then ''warning''
              else ''healthy'')"
    by (intro calculate_system_health_ratio) simp_all
  show "let ratio = real_of_int (failed_tasks (task_stats self))
                       / real_of_int (total_tasks (task_stats self))
         in (calculate_system_health self = Inr ''healthy'' \<longleftrightarrow> ratio \<le> 0.2)
            \<and> (calculate_system_health self = Inr ''warning'' \<longleftrightarrow> 0.2 < ratio \<and> ratio \<le> 0.5)
            \<and> (calculate_system_health self = Inr ''critical'' \<longleftrightarrow> 0.5 < ratio)"
    unfolding h Let_def by auto
qed

text \<open>Instances: one failure in five tasks, one in two, two in three, and no task.\<close>

theorem calculate_system_health_thresholds_witness:
  "calculate_system_health (service_with_counts 1 5) = Inr ''healthy''
   \<and> calculate_system_health (service_with_counts 1 2) = Inr ''warning''
   \<and> calculate_system_health (service_with_counts 2 3) = Inr ''critical''
   \<and> calculate_system_health (service_with_counts 0 0) = Inr ''unknown''"
  using calculate_system_health_thresholds [of "service_with_counts 1 5"]
    calculate_system_health_thresholds [of "service_with_counts 1 2"]
    calculate_system_health_thresholds [of "service_with_counts 2 3"]
    calculate_system_health_thresholds [of "service_with_counts 0 0"]
  by (simp add: service_with_counts_def MonitoringService_init_def Let_def)

text \<open>
  C7 as the specification words it fails at both bounds: with one failure in two tasks
  the ratio is exactly 0.5 and the code answers "warning" where the specification says
  "critical"; with one failure in five it is exactly 0.2 and the code answers "healthy"
  where the specification says "warning".
\<close>

theorem calculate_system_health_bounds_counterexample:
  "calculate_system_health (service_with_counts 1 2) = Inr ''warning''
   \<and> spec_health_tag 1 2 = ''critical''
   \<and> calculate_system_health (service_with_counts 1 5) = Inr ''healthy''
   \<and> spec_health_tag 1 5 = ''warning''"
proof -
  have "calculate_system_health (service_with_counts 1 2) = Inr ''warning''"
    by (subst calculate_system_health_ratio)
      (simp_all add: service_with_counts_def MonitoringService_init_def)
  moreover have "calculate_system_health (service_with_counts 1 5) = Inr ''healthy''"
    by (subst calculate_system_health_ratio)
      (simp_all add: service_with_counts_def MonitoringService_init_def)
  ultimately show ?thesis by (simp add: spec_health_tag_def)
qed

text \<open>
  The bound on the counters is needed. Beyond it the float quotient can round down onto
  a bound that the exact ratio exceeds: with 10000000000000001 failures in
  50000000000000000 tasks the ratio is above 0.2 and the tag is "healthy", and with
  100000000000000001 failures in 200000000000000000 tasks the ratio is above 0.5 and the
  tag is "warning".
\<close>

lemma calculate_system_health_large_counters:
  "calculate_system_health (service_with_counts 10000000000000001 50000000000000000)
     = Inr ''healthy''
   \<and> (0.2 :: real) < 10000000000000001 / 50000000000000000
   \<and> calculate_system_health (service_with_counts 100000000000000001 200000000000000000)
     = Inr ''warning''
   \<and> (0.5 :: real) < 100000000000000001 / 200000000000000000"
proof -
  have "calculate_system_health (service_with_counts 10000000000000001 50000000000000000)
     = Inr ''healthy''"
    by (subst calculate_system_health_float)
      (simp_all add: service_with_counts_def MonitoringService_init_def)
  moreover have
    "calculate_system_health (service_with_counts 100000000000000001 200000000000000000)
     = Inr ''warning''"
    by (subst calculate_system_health_float)
      (simp_all add: service_with_counts_def MonitoringService_init_def)
  ultimately show ?thesis by simp
qed

subsection \<open>C8: the counter of all tasks\<close>

lemma monitoring_apply_total_tasks:
  "total_tasks (task_stats (monitoring_apply self c)) = total_tasks (task_stats self)"
  by (cases c) (simp_all add: record_error_def start_timer_def stop_timer_def
      record_task_completed_def record_task_retry_def clear_old_data_def Let_def
      record_metric_task_stats split: option.splits)

lemma foldl_monitoring_apply_total_tasks:
  "total_tasks (task_stats (foldl monitoring_apply self calls)) = total_tasks (task_stats self)"
  by (induction calls arbitrary: self) (simp_all add: monitoring_apply_total_tasks)

text \<open>
  C8. A service starts with \<open>total_tasks = 0\<close> and no call changes that entry: after any
  sequence of calls it is still 0, so \<^verbatim>\<open>_calculate_system_health\<close> answers "unknown", and
  so does the summary, however many tasks were recorded as completed or failed.
\<close>

theorem total_tasks_never_incremented:
  "total_tasks (task_stats (monitoring_after max_metrics max_errors calls)) = 0
   \<and> calculate_system_health (monitoring_after max_metrics max_errors calls) = Inr ''unknown''
   \<and> (\<exists>summary. get_metrics_summary now (monitoring_after max_metrics max_errors calls)
                    = Inr summary
                \<and> system_health summary = ''unknown'')"
proof -
  have "total_tasks (task_stats (monitoring_after max_metrics max_errors calls)) = 0"
    by (simp add: monitoring_after_def foldl_monitoring_apply_total_tasks
        MonitoringService_init_def)
  then show ?thesis
    by (simp add: calculate_system_health_def get_metrics_summary_def)
qed

text \<open>
  An instance: two failures and a completion are recorded, and the entry is 0 and the
  tag "unknown".
\<close>

theorem total_tasks_never_incremented_witness:
  "total_tasks (task_stats (monitoring_after 1000 500
       [RecordError 1 (Exception ''gpu busy'') (Some ''t1''),
        RecordError 2 (Exception ''gpu busy'') (Some ''t1''),
        RecordTaskCompleted 3 ''t1'' 2])) = 0
   \<and> calculate_system_health (monitoring_after 1000 500
       [RecordError 1 (Exception ''gpu busy'') (Some ''t1''),
        RecordError 2 (Exception ''gpu busy'') (Some ''t1''),
        RecordTaskCompleted 3 ''t1'' 2]) = Inr ''unknown''
   \<and> (\<exists>summary. get_metrics_summary 4 (monitoring_after 1000 500
       [RecordError 1 (Exception ''gpu busy'') (Some ''t1''),
        RecordError 2 (Exception ''gpu busy'') (Some ''t1''),
        RecordTaskCompleted 3 ''t1'' 2]) = Inr summary
      \<and> system_health summary = ''unknown'')"
  using total_tasks_never_incremented [of 1000 500
      "[RecordError 1 (Exception ''gpu busy'') (Some ''t1''),
        RecordError 2 (Exception ''gpu busy'') (Some ''t1''),
        RecordTaskCompleted 3 ''t1'' 2]" 4]
  by simp

subsection \<open>C9: the severity of a health snapshot\<close>

lemma has_critical_keyword_prefix:
  "has_critical_keyword p \<Longrightarrow> has_critical_keyword (p @ rest)"
  unfolding has_critical_keyword_def str_contains_def list_ex_iff
  by (meson sublist_append_rightI sublist_order.order_trans)

lemma issue_texts_critical:
  "has_critical_keyword issue_cpu_prefix" "has_critical_keyword issue_memory_prefix"
  "has_critical_keyword issue_disk_prefix" "has_critical_keyword issue_gpu_memory_prefix"
  "has_critical_keyword issue_gpu_temperature_prefix"
  "has_critical_keyword reason_gpu_unavailable"
  by code_simp+

lemma append_issue_critical:
  "list_all has_critical_keyword (issues h) \<Longrightarrow> has_critical_keyword i \<Longrightarrow>
   list_all has_critical_keyword (issues (append_issue i r h))"
  by (simp add: append_issue_def)

lemma check_resource_issues_critical:
  assumes "list_all has_critical_keyword (issues h)"
    and "check_resource_issues fmt h cpu mem du dt = Inr h'"
  shows "list_all has_critical_keyword (issues h')"
  using assms
  by (auto simp: check_resource_issues_def Let_def append_issue_critical
      has_critical_keyword_prefix issue_texts_critical split: if_splits)

lemma check_gpu_issues_critical:
  assumes "list_all has_critical_keyword (issues h)"
  shows "list_all has_critical_keyword (issues (check_gpu_issues fmt h r))"
  using assms
  by (auto simp: check_gpu_issues_def Let_def append_issue_critical
      has_critical_keyword_prefix issue_texts_critical split: option.splits)

lemma determine_overall_status_issues:
  "issues (determine_overall_status h) = issues h"
  by (simp add: determine_overall_status_def Let_def)

lemma determine_overall_status_critical:
  assumes "list_all has_critical_keyword (issues h)"
  shows "overall_status (determine_overall_status h)
           = (if issues h = [] then ''healthy'' else ''critical'')"
proof (cases "issues h")
  case Nil
  then show ?thesis by (simp add: determine_overall_status_def)
next
  case (Cons i rest)
  with assms have "list_ex has_critical_keyword (issues h)" by simp
  then show ?thesis using Cons
    by (simp add: determine_overall_status_def has_critical_keyword_def [abs_def])
qed

lemma check_resource_issues_raises:
  "(\<exists>e. check_resource_issues fmt h cpu mem du dt = Inl e) \<longleftrightarrow> dt = 0"
  by (auto simp: check_resource_issues_def Let_def)

text \<open>
  C9. Every issue text that a health check appends contains one of the critical
  keywords, so a check that produces a snapshot rates it critical when it has issues and
  healthy when it has none, and never warning. (The check produces no snapshot exactly
  when the disk total is zero: the division raises and the exception is logged.)
\<close>

theorem health_check_never_warning:
  "case perform_health_check fmt now cpu mem gpu_mgr probe disk_used disk_total of
     Inl e \<Rightarrow> disk_total = 0
   | Inr (snapshot, actions) \<Rightarrow>
       disk_total \<noteq> 0
       \<and> (\<forall>issue \<in> set (issues snapshot).
             \<exists>keyword \<in> set critical_keywords. str_contains keyword issue)
       \<and> overall_status snapshot = (if issues snapshot = [] then ''healthy'' else ''critical'')
       \<and> overall_status snapshot \<noteq> ''warning''"
proof (cases "perform_health_check fmt now cpu mem gpu_mgr probe disk_used disk_total")
  case (Inl e)
  then show ?thesis
    using check_resource_issues_raises
    by (fastforce simp: perform_health_check_def Let_def split: sum.splits)
next
  case (Inr result)
  obtain snapshot actions where result: "result = (snapshot, actions)" by (cases result)
  define h0 :: HealthStatus where "h0 =
            \<lparr>health_timestamp = now, overall_status = ''healthy'', issues = [],
             recommendations = [], cpu_usage = cpu, memory_usage = mem,
             gpu_available = report_available (check_gpu_memory gpu_mgr probe),
             gpu_memory_usage = report_memory_percent (check_gpu_memory gpu_mgr probe),
             gpu_temperature = report_temperature (check_gpu_memory gpu_mgr probe),
             health_active_tasks = 0, failed_tasks_count = 0, stuck_tasks_count = 0\<rparr>"
  from Inr result obtain h1 where
    h1: "check_resource_issues fmt h0 cpu mem disk_used disk_total = Inr h1"
    and snap: "snapshot = determine_overall_status
                 (check_task_issues (check_gpu_issues fmt h1 (check_gpu_memory gpu_mgr probe)))"
    by (auto simp: perform_health_check_def Let_def h0_def split: sum.splits)
  have "list_all has_critical_keyword (issues h0)" by (simp add: h0_def)
  then have "list_all has_critical_keyword (issues h1)"
    using h1 by (rule check_resource_issues_critical)
  then have all: "list_all has_critical_keyword
                    (issues (check_task_issues (check_gpu_issues fmt h1 (check_gpu_memory gpu_mgr probe))))"
    by (simp add: check_task_issues_def check_gpu_issues_critical)
  have nonzero: "disk_total \<noteq> 0"
    using h1 check_resource_issues_raises [of fmt h0 cpu mem disk_used disk_total] by auto
  have status: "overall_status snapshot = (if issues snapshot = [] then ''healthy'' else ''critical'')"
    unfolding snap using determine_overall_status_critical [OF all]
    by (simp add: determine_overall_status_issues)
  have kw: "\<forall>issue \<in> set (issues snapshot).
             \<exists>keyword \<in> set critical_keywords. str_contains keyword issue"
    using all unfolding snap
    by (simp add: determine_overall_status_issues list_all_iff has_critical_keyword_def list_ex_iff)
  from nonzero status kw show ?thesis
    by (simp add: Inr result)
qed

text \<open>An instance: a CPU reading of 95 percent gives one issue and the rating critical.\<close>

theorem health_check_never_warning_witness:
  "\<exists>snapshot actions.
      perform_health_check (\<lambda>_. ''95.0'') 0 95 50 (GPUResourceManager_init 3 0.8) gpu_idle 10 100
        = Inr (snapshot, actions)
      \<and> issues snapshot \<noteq> [] \<and> overall_status snapshot = ''critical''"
proof -
  let ?r = "perform_health_check (\<lambda>_. ''95.0'') 0 95 50 (GPUResourceManager_init 3 0.8)
              gpu_idle 10 100"
  have "\<exists>snapshot actions. ?r = Inr (snapshot, actions) \<and> issues snapshot \<noteq> []"
    by (simp add: perform_health_check_def Let_def check_resource_issues_def
        check_gpu_issues_def check_gpu_memory_def gpu_idle_def GPUResourceManager_init_def
        report_available_def report_memory_percent_def report_temperature_def
        check_task_issues_def append_issue_def determine_overall_status_issues)
  then obtain snapshot actions where
    r: "?r = Inr (snapshot, actions)" and nonempty: "issues snapshot \<noteq> []"
    by blast
  from health_check_never_warning
    [where fmt = "\<lambda>_. ''95.0''" and now = 0 and cpu = 95 and mem = 50
       and gpu_mgr = "GPUResourceManager_init 3 0.8" and probe = gpu_idle
       and disk_used = 10 and disk_total = 100] r nonempty
  have "overall_status snapshot = ''critical''" by simp
  with r nonempty show ?thesis by blast
qed

subsection \<open>C10: failures are counted per attempt\<close>

text \<open>
  C10, as the code has it. A call of \<^verbatim>\<open>record_error\<close> with a task id that is neither
  \<^verbatim>\<open>None\<close> nor the empty string adds exactly 1 to \<open>failed_tasks\<close>. So a task (with
  such an id) whose first \<open>N\<close> attempts fail with a retryable error, within its retry
  bound, and whose next attempt succeeds, ends with the status "completed" while
  \<open>failed_tasks\<close> has grown by \<open>N\<close> and \<open>completed_tasks\<close> by 1.
\<close>

theorem failures_counted_per_attempt:
  "(tid \<noteq> [] \<longrightarrow>
      failed_tasks (task_stats (record_error now e (Some tid) self))
        = failed_tasks (task_stats self) + 1)
   \<and> (tasks_db w tid = Some task \<and> tid \<noteq> []
        \<and> list_all (fails_retryably (gpu_manager w)) fails
        \<and> current_retry_count task + length fails \<le> current_max_retries task
        \<and> succeeds (gpu_manager w) ok
      \<longrightarrow> (\<exists>w'. process_image_task tid fmt (fails @ ok # rest) w = Some w'
                \<and> failed_tasks (stats w') = failed_tasks (stats w) + int (length fails)
                \<and> completed_tasks (stats w') = completed_tasks (stats w) + 1
                \<and> map_option status (tasks_db w' tid) = Some Completed))"
proof (intro conjI impI)
  assume "tid \<noteq> []"
  then show "failed_tasks (task_stats (record_error now e (Some tid) self))
        = failed_tasks (task_stats self) + 1"
    by (simp add: record_error_task_stats)
next
  assume a: "tasks_db w tid = Some task \<and> tid \<noteq> []
        \<and> list_all (fails_retryably (gpu_manager w)) fails
        \<and> current_retry_count task + length fails \<le> current_max_retries task
        \<and> succeeds (gpu_manager w) ok"
  let ?g = "gpu_manager w"
  from a have task: "tasks_db w tid = Some task" and tid: "counted tid = 1"
    and all: "list_all (fails_retryably ?g) fails" and ok: "succeeds ?g ok"
    and bound: "current_retry_count task + length fails \<le> current_max_retries task"
    by (simp_all add: counted_def)
  note o = obs_of_task [OF task]
  note run = failing_run [OF o all bound, of fmt "ok # rest"]
  define wn where "wn = after_retries tid fmt fails w"
  from run have rn: "process_image_task tid fmt (fails @ ok # rest) w
                  = map_option (wrapper_exit ^^ length fails)
                      (process_image_task tid fmt (ok # rest) wn)"
    and on: "obs tid wn = (?g, failed_tasks (stats w) + counted tid * int (length fails),
               completed_tasks (stats w), retried_tasks (stats w) + int (length fails),
               Some (current_retry_count task + length fails, current_max_retries task,
                     map (\<lambda>entry. (attempt entry, retry_error entry)) (current_retry_history task)
                     @ zip [current_retry_count task + 1
                            ..< current_retry_count task + length fails + 1]
                         (map (\<lambda>env. exc_str (failure_exception ?g env)) fails),
                     error_message task, webhook_url task),
               slept w @ map retry_delay [current_retry_count task + 1
                            ..< current_retry_count task + length fails + 1],
               executor_writes tid w @ concat (replicate (length fails) [Processing, Pending]))"
    unfolding wn_def by blast+
  from process_completes [OF on ok, of fmt rest] obtain w' where
    w': "process_image_task tid fmt (ok # rest) wn = Some w'"
    and f': "failed_tasks (stats w') = failed_tasks (stats w) + int (length fails)"
    and c': "completed_tasks (stats w') = completed_tasks (stats w) + 1"
    and st: "map_option status (tasks_db w' tid) = Some Completed"
    by (auto simp del: process_image_task.simps simp: obs_def tid)
  let ?w' = "(wrapper_exit ^^ length fails) w'"
  have "process_image_task tid fmt (fails @ ok # rest) w = Some ?w'"
    using rn w' by (simp del: process_image_task.simps)
  moreover have "failed_tasks (stats ?w') = failed_tasks (stats w) + int (length fails)"
    and "completed_tasks (stats ?w') = completed_tasks (stats w) + 1"
    using wrapper_exits_obs [of tid "length fails" w'] f' c' by (simp_all add: obs_def)
  moreover have "map_option status (tasks_db ?w' tid) = Some Completed"
    using st by (simp only: wrapper_exits_tasks_db)
  ultimately show "\<exists>w'. process_image_task tid fmt (fails @ ok # rest) w = Some w'
                \<and> failed_tasks (stats w') = failed_tasks (stats w) + int (length fails)
                \<and> completed_tasks (stats w') = completed_tasks (stats w) + 1
                \<and> map_option status (tasks_db w' tid) = Some Completed"
    by (intro exI [of _ ?w'] conjI)
qed

text \<open>An instance: two failed renders, then a successful one.\<close>

theorem failures_counted_per_attempt_witness:
  "\<exists>w'. process_image_task ''t1'' None [env_render_fails, env_render_fails, env_ok]
          (fresh_world 3 (new_task ''t1'' ''in.png'' None 0)) = Some w'
        \<and> failed_tasks (stats w') = 2 \<and> completed_tasks (stats w') = 1
        \<and> map_option status (tasks_db w' ''t1'') = Some Completed"
proof -
  let ?w = "fresh_world 3 (new_task ''t1'' ''in.png'' None 0)"
  have pre: "tasks_db ?w ''t1'' = Some (new_task ''t1'' ''in.png'' None 0) \<and> ''t1'' \<noteq> []
        \<and> list_all (fails_retryably (gpu_manager ?w)) [env_render_fails, env_render_fails]
        \<and> current_retry_count (new_task ''t1'' ''in.png'' None 0)
            + length [env_render_fails, env_render_fails]
            \<le> current_max_retries (new_task ''t1'' ''in.png'' None 0)
        \<and> succeeds (gpu_manager ?w) env_ok"
    by (simp add: fresh_world_task(1) env_render_fails_retryably new_task_fresh
        env_ok_succeeds_fresh)
  from failures_counted_per_attempt
    [where w = ?w and tid = "''t1''" and task = "new_task ''t1'' ''in.png'' None 0"
       and fails = "[env_render_fails, env_render_fails]" and ok = env_ok
       and fmt = None and rest = "[]", THEN conjunct2, rule_format, OF pre]
  show ?thesis
    by (simp del: process_image_task.simps add: fresh_world_task(5))
qed

text \<open>
  C10 as stated fails for a task id that is not null but empty: \<^verbatim>\<open>if task_id:\<close> is
  false for the empty string, and \<open>failed_tasks\<close> stays as it was.
\<close>

theorem record_error_empty_task_id_counterexample:
  "failed_tasks (task_stats (record_error 0 (Exception ''boom'') (Some [])
                   (MonitoringService_init 1000 500)))
     = failed_tasks (task_stats (MonitoringService_init 1000 500))"
  by (simp add: record_error_task_stats)

end
